theory Spec2Isabelle
  imports Complex_Main "HOL-Library.Sublist"
begin

section \<open>JavaScript values\<close>

text \<open>
  Strings are lists of 8-bit code units: Node decodes header names and values as Latin-1,
  and a body chunk is a \<^verbatim>\<open>Buffer\<close> of bytes whose \<^verbatim>\<open>length\<close> is its number of bytes.
  A plain object (\<^verbatim>\<open>req.headers\<close>, \<^verbatim>\<open>out\<close>, \<^verbatim>\<open>cors\<close>) is a list of
  key/value entries in insertion order; \<^verbatim>\<open>obj[k]\<close> reads the entry of key \<open>k\<close>,
  \<^verbatim>\<open>obj[k] = v\<close> overwrites the entry in place or appends a new one.
\<close>

type_synonym chunk = string

type_synonym 'v obj = "(string \<times> 'v) list"

type_synonym headers = "string obj"

datatype js_error = JsError (message: string) (code: "string option")

definition get_prop :: "'v obj \<Rightarrow> string \<Rightarrow> 'v option" where
  "get_prop ob k = map_of ob k"

fun set_prop :: "string \<Rightarrow> 'v \<Rightarrow> 'v obj \<Rightarrow> 'v obj" where
  "set_prop k v [] = [(k, v)]"
| "set_prop k v ((k', v') # rest) =
     (if k' = k then (k, v) # rest else (k', v') # set_prop k v rest)"

definition keys :: "'v obj \<Rightarrow> string set" where
  "keys ob = fst ` set ob"

text \<open>\<^verbatim>\<open>Object.assign(target, source)\<close>: every entry of the source is written to the target.\<close>

definition assign :: "'v obj \<Rightarrow> 'v obj \<Rightarrow> 'v obj" where
  "assign target source = fold (\<lambda>(k, v) acc. set_prop k v acc) source target"

text \<open>
  \<^verbatim>\<open>String.prototype.toLowerCase\<close> on Latin-1 code units: \<open>A\<close>..\<open>Z\<close> and the accented
  capitals \<open>0xC0\<close>..\<open>0xDE\<close> (but the multiplication sign \<open>0xD7\<close>) move up by 32.
\<close>

definition lower_char :: "char \<Rightarrow> char" where
  "lower_char c =
     (let n = of_char c :: nat
      in if (65 \<le> n \<and> n \<le> 90) \<or> (192 \<le> n \<and> n \<le> 222 \<and> n \<noteq> 215)
         then char_of (n + 32) else c)"

definition toLowerCase :: "string \<Rightarrow> string" where
  "toLowerCase s = map lower_char s"

text \<open>\<^verbatim>\<open>String.prototype.split(sep)\<close> for a separator of one character.\<close>

fun split_on :: "char \<Rightarrow> string \<Rightarrow> string list" where
  "split_on sep [] = [[]]"
| "split_on sep (c # cs) =
     (if c = sep then [] # split_on sep cs
      else (case split_on sep cs of [] \<Rightarrow> [[c]] | p # ps \<Rightarrow> (c # p) # ps))"

text \<open>
  \<^verbatim>\<open>String.prototype.trim\<close>: the white space and line terminators of ECMAScript that
  fit in 8 bits are tab, LF, VT, FF, CR, space and the no-break space.
\<close>

definition is_js_space :: "char \<Rightarrow> bool" where
  "is_js_space c = (of_char c \<in> {9, 10, 11, 12, 13, 32, 160 :: nat})"

definition trim :: "string \<Rightarrow> string" where
  "trim s = rev (dropWhile is_js_space (rev (dropWhile is_js_space s)))"

text \<open>\<^verbatim>\<open>String.prototype.replace(c, "")\<close> for a pattern of one character: the first match goes.\<close>

definition remove_first :: "char \<Rightarrow> string \<Rightarrow> string" where
  "remove_first c s = takeWhile (\<lambda>x. x \<noteq> c) s @ drop 1 (dropWhile (\<lambda>x. x \<noteq> c) s)"

text \<open>
  The platform's own functions are not code of the repository; the model takes them as
  parameters. \<open>new_URL rt input base\<close> is \<^verbatim>\<open>new URL(input, base)\<close> (\<open>None\<close> when it throws),
  \<open>js_Number rt s\<close> is \<^verbatim>\<open>Number(s)\<close> when that is finite (\<open>None\<close> for \<^verbatim>\<open>NaN\<close> and the
  infinities, where \<^verbatim>\<open>Number.isFinite\<close> is false).
\<close>

record url =
  protocol :: string
  hostname :: string
  url_port :: string
  pathname :: string
  search :: string
  origin :: string

record js_runtime =
  new_URL :: "string \<Rightarrow> string option \<Rightarrow> url option"
  js_Number :: "string \<Rightarrow> real option"

section \<open>Configuration (\<^verbatim>\<open>src/config.js\<close>)\<close>

definition DEFAULT_ALLOWED_ORIGINS :: "string list" where
  "DEFAULT_ALLOWED_ORIGINS = [''https://chatgpt.com'', ''https://chat.openai.com'']"

definition normalizeOrigin :: "js_runtime \<Rightarrow> string \<Rightarrow> string option" where
  "normalizeOrigin rt input =
     (case new_URL rt input None of None \<Rightarrow> None | Some u \<Rightarrow> Some (origin u))"

text \<open>The entries of \<^verbatim>\<open>ALLOWED_ORIGINS\<close>: split at commas, trimmed, the empty ones left out.\<close>

definition origin_parts :: "string option \<Rightarrow> string list" where
  "origin_parts raw =
     filter (\<lambda>s. s \<noteq> []) (map trim (split_on CHR '','' (case raw of None \<Rightarrow> [] | Some s \<Rightarrow> s)))"

text \<open>The body of the \<^verbatim>\<open>for\<close> loop: \<^verbatim>\<open>if (o) set.add(o)\<close>, for \<open>o\<close> null or a string.\<close>

definition add_origin :: "js_runtime \<Rightarrow> string \<Rightarrow> string set \<Rightarrow> string set" where
  "add_origin rt p st =
     (case normalizeOrigin rt p of
        None \<Rightarrow> st
      | Some orig \<Rightarrow> if orig \<noteq> [] then insert orig st else st)"

definition parseAllowedOrigins :: "js_runtime \<Rightarrow> string option \<Rightarrow> string set" where
  "parseAllowedOrigins rt raw = fold (add_origin rt) (origin_parts raw) (set DEFAULT_ALLOWED_ORIGINS)"

text \<open>
  \<open>parsed_env\<close> is \<^verbatim>\<open>parsed.data\<close>, what the zod schema returns for a valid environment;
  the schema's \<^verbatim>\<open>safeParse\<close> is a parameter of \<open>readConfig\<close>, \<open>Inl\<close> carrying the joined
  issues of an invalid environment.
\<close>

record parsed_env =
  PORT :: int
  MCP_PATH :: string
  UPSTREAM_URL :: string
  ALLOWED_ORIGINS :: "string option"
  MAX_BODY_BYTES :: int
  AUTH_BEARER_TOKEN :: "string option"
  UPSTREAM_TIMEOUT_MS :: int

record config =
  port :: int
  mcpPath :: string
  upstreamUrl :: url
  allowedOrigins :: "string set"
  maxBodyBytes :: int
  authBearerToken :: "string option"
  upstreamTimeoutMs :: int

datatype config_error = InvalidEnvironment string | InvalidUpstreamUrl

definition readConfig :: "js_runtime \<Rightarrow> ('env \<Rightarrow> string + parsed_env) \<Rightarrow> 'env \<Rightarrow> config_error + config" where
  "readConfig rt safeParse env =
     (case safeParse env of
        Inl msg \<Rightarrow> Inl (InvalidEnvironment (''Invalid environment: '' @ msg))
      | Inr d \<Rightarrow>
          (case new_URL rt (UPSTREAM_URL d) None of
             None \<Rightarrow> Inl InvalidUpstreamUrl
           | Some u \<Rightarrow>
               Inr \<lparr> port = PORT d,
                     mcpPath = (case MCP_PATH d of
                                  c # cs \<Rightarrow> if c = CHR ''/'' then MCP_PATH d else CHR ''/'' # MCP_PATH d
                                | [] \<Rightarrow> ''/''),
                     upstreamUrl = u,
                     allowedOrigins = parseAllowedOrigins rt (ALLOWED_ORIGINS d),
                     maxBodyBytes = MAX_BODY_BYTES d,
                     authBearerToken =
                       (let t = trim (case AUTH_BEARER_TOKEN d of None \<Rightarrow> [] | Some a \<Rightarrow> a)
                        in if t = [] then None else Some t),
                     upstreamTimeoutMs = UPSTREAM_TIMEOUT_MS d \<rparr>))"


section \<open>The streaming size guard (\<^verbatim>\<open>createSizeLimitStream\<close>)\<close>

text \<open>
  The transform keeps one number, \<^verbatim>\<open>seen\<close>. \<open>transform maxBytes seen chunk\<close> is one call of
  the \<^verbatim>\<open>transform(chunk, _enc, cb)\<close> method: the new value of \<^verbatim>\<open>seen\<close>, and
  what the callback receives: \<open>Inl err\<close> for \<^verbatim>\<open>cb(err)\<close>, \<open>Inr chunk\<close> for
  \<^verbatim>\<open>cb(null, chunk)\<close>. \<open>None\<close> is a null or undefined chunk, of length \<^verbatim>\<open>?? 0\<close>.
\<close>

definition chunk_length :: "chunk option \<Rightarrow> int" where
  "chunk_length c = (case c of None \<Rightarrow> 0 | Some b \<Rightarrow> int (length b))"

definition body_too_large :: js_error where
  "body_too_large = JsError ''Body too large'' (Some ''BODY_TOO_LARGE'')"

definition transform :: "int \<Rightarrow> int \<Rightarrow> chunk option \<Rightarrow> int \<times> (js_error + chunk option)" where
  "transform maxBytes seen c =
     (let seen' = seen + chunk_length c
      in if seen' > maxBytes then (seen', Inl body_too_large) else (seen', Inr c))"

text \<open>
  A stream fed the chunks in order: the chunks pushed downstream and the error the stream
  ended with, if any. A Transform whose callback got an error is destroyed and takes no
  further chunk.
\<close>

fun limiter_stream :: "int \<Rightarrow> int \<Rightarrow> chunk list \<Rightarrow> chunk list \<times> js_error option" where
  "limiter_stream maxBytes seen [] = ([], None)"
| "limiter_stream maxBytes seen (c # cs) =
     (case transform maxBytes seen (Some c) of
        (seen', Inl err) \<Rightarrow> ([], Some err)
      | (seen', Inr out) \<Rightarrow>
          (case limiter_stream maxBytes seen' cs of
             (fwd, e) \<Rightarrow> ((case out of None \<Rightarrow> [] | Some d \<Rightarrow> [d]) @ fwd, e)))"

definition createSizeLimitStream :: "int \<Rightarrow> chunk list \<Rightarrow> chunk list \<times> js_error option" where
  "createSizeLimitStream maxBytes cs = limiter_stream maxBytes 0 cs"

definition total_bytes :: "chunk list \<Rightarrow> int" where
  "total_bytes cs = (\<Sum>c\<leftarrow>cs. int (length c))"

section \<open>The proxy (\<^verbatim>\<open>src/proxy.js\<close>)\<close>

subsection \<open>Paths and headers\<close>

text \<open>\<open>None\<close> is an argument that is not a string (\<^verbatim>\<open>typeof p === "string" ? p : "/"\<close>).\<close>

definition normalizePath :: "string option \<Rightarrow> string" where
  "normalizePath p =
     (let s = (case p of Some x \<Rightarrow> x | None \<Rightarrow> ''/'');
          noQuery = takeWhile (\<lambda>c. c \<noteq> CHR ''#'') (takeWhile (\<lambda>c. c \<noteq> CHR ''?'') s);
          withoutTrailing =
            (if noQuery \<noteq> ''/'' then rev (dropWhile (\<lambda>c. c = CHR ''/'') (rev noQuery)) else noQuery)
      in if withoutTrailing = [] then ''/'' else withoutTrailing)"

definition isHopByHopHeader :: "string \<Rightarrow> bool" where
  "isHopByHopHeader name =
     (let n = toLowerCase name
      in n = ''connection'' \<or> n = ''keep-alive'' \<or> n = ''proxy-authenticate'' \<or>
         n = ''proxy-authorization'' \<or> n = ''te'' \<or> n = ''trailer'' \<or>
         n = ''transfer-encoding'' \<or> n = ''upgrade'')"

text \<open>One round of the loop of \<^verbatim>\<open>sanitizeRequestHeaders\<close> over \<^verbatim>\<open>Object.entries(inHeaders)\<close>.\<close>

definition sanitize_entry :: "string \<times> 'v \<Rightarrow> 'v obj \<Rightarrow> 'v obj" where
  "sanitize_entry e out =
     (let key = fst e
      in if key = [] then out
         else let lower = toLowerCase key
              in if lower = ''host'' then out
                 else if isHopByHopHeader lower then out
                 else set_prop key (snd e) out)"

definition sanitizeRequestHeaders :: "'v obj \<Rightarrow> 'v obj" where
  "sanitizeRequestHeaders inHeaders = fold sanitize_entry inHeaders []"

text \<open>
  The headers of the relayed response, as the response callback builds them: one round of
  its loop over \<^verbatim>\<open>Object.entries(upstreamRes.headers)\<close>, then the CORS decision merged in
  and the content-sniffing header set.
\<close>

definition relay_entry :: "string \<times> 'v \<Rightarrow> 'v obj \<Rightarrow> 'v obj" where
  "relay_entry e out =
     (let k = fst e
      in if k = [] then out
         else if isHopByHopHeader k then out
         else set_prop k (snd e) out)"

definition outHeaders :: "headers option \<Rightarrow> headers \<Rightarrow> headers" where
  "outHeaders cors upstreamHeaders =
     (let filtered = fold relay_entry upstreamHeaders [];
          merged = (case cors of None \<Rightarrow> filtered | Some c \<Rightarrow> assign filtered c)
      in set_prop ''X-Content-Type-Options'' ''nosniff'' merged)"

subsection \<open>The client response and the upstream request\<close>

text \<open>
  A session is the state of one request: the \<^verbatim>\<open>res\<close> object (\<open>headersSent\<close>, \<open>statusCode\<close>,
  \<open>res_headers\<close>, \<open>res_body\<close>, \<open>res_ended\<close>, \<open>res_destroyed\<close>), what has gone out to the client
  on its connection (\<open>delivered\<close>; nothing goes out once the connection has closed or the
  response was destroyed), the request opened with \<^verbatim>\<open>upstreamClient.request\<close>
  (\<open>upstreamReq\<close>, \<open>None\<close> as long as none was opened, and what was written to it), the
  closure variable \<^verbatim>\<open>cors\<close> and the counter of the size guard. \<open>threw\<close> records an
  exception that left the handler.
\<close>

datatype wire = WHead nat headers | WBody string | WEnd | WReset

record upstream_options =
  up_protocol :: string
  up_hostname :: string
  up_port :: "string option"
  up_method :: string
  up_path :: string
  up_headers :: headers
  up_timeout :: int

record session =
  threw :: bool
  headersSent :: bool
  statusCode :: "nat option"
  res_headers :: headers
  res_body :: "string list"
  res_ended :: bool
  res_destroyed :: bool
  client_closed :: bool
  delivered :: "wire list"
  upstreamReq :: "upstream_options option"
  upstream_written :: "chunk list"
  upstream_ended :: bool
  upstream_destroyed :: bool
  upstream_responded :: bool
  cors_decision :: "headers option"
  seen :: int
  limiter_errored :: bool

definition fresh :: session where
  "fresh = \<lparr> threw = False, headersSent = False, statusCode = None, res_headers = [],
             res_body = [], res_ended = False, res_destroyed = False, client_closed = False,
             delivered = [], upstreamReq = None, upstream_written = [], upstream_ended = False,
             upstream_destroyed = False, upstream_responded = False, cors_decision = None,
             seen = 0, limiter_errored = False \<rparr>"

definition send :: "wire list \<Rightarrow> session \<Rightarrow> session" where
  "send ws s = (if client_closed s \<or> res_destroyed s then s else s\<lparr>delivered := delivered s @ ws\<rparr>)"

text \<open>\<^verbatim>\<open>res.writeHead\<close>, called where no head was written before.\<close>

definition writeHead :: "nat \<Rightarrow> headers \<Rightarrow> session \<Rightarrow> session" where
  "writeHead c hs s = send [WHead c hs] (s\<lparr>headersSent := True, statusCode := Some c, res_headers := hs\<rparr>)"

definition res_end :: "string option \<Rightarrow> session \<Rightarrow> session" where
  "res_end b s =
     (let chunks = (case b of None \<Rightarrow> [] | Some x \<Rightarrow> [x])
      in send (map WBody chunks @ [WEnd]) (s\<lparr>res_body := res_body s @ chunks, res_ended := True\<rparr>))"

definition res_destroy :: "session \<Rightarrow> session" where
  "res_destroy s = (send [WReset] s)\<lparr>res_destroyed := True\<rparr>"

definition respond :: "nat \<Rightarrow> headers \<Rightarrow> string option \<Rightarrow> session \<Rightarrow> session" where
  "respond c hs b s = res_end b (writeHead c hs s)"

definition plain_headers :: headers where
  "plain_headers = [(''Content-Type'', ''text/plain; charset=utf-8''),
                    (''X-Content-Type-Options'', ''nosniff'')]"

definition json_headers :: headers where
  "json_headers = [(''Content-Type'', ''application/json; charset=utf-8''),
                   (''X-Content-Type-Options'', ''nosniff'')]"

text \<open>\<^verbatim>\<open>JSON.stringify({ ok: true })\<close>, the quotation mark being the character \<open>0x22\<close>.\<close>

definition health_body :: string where
  "health_body = ''{'' @ [CHR 0x22] @ ''ok'' @ [CHR 0x22] @ '':true}''"

subsection \<open>The handler, up to the dispatch of the upstream request\<close>

record request =
  req_url :: "string option"
  req_method :: "string option"
  req_headers :: headers
  remoteAddress :: "string option"

text \<open>\<^verbatim>\<open>!x\<close> for \<open>x\<close> undefined or a string.\<close>

definition falsy :: "string option \<Rightarrow> bool" where
  "falsy x = (case x of None \<Rightarrow> True | Some v \<Rightarrow> v = [])"

text \<open>\<^verbatim>\<open>String(x ?? "")\<close>.\<close>

definition or_empty :: "string option \<Rightarrow> string" where
  "or_empty x = (case x of None \<Rightarrow> [] | Some v \<Rightarrow> v)"

definition MCP_METHODS :: "string set" where
  "MCP_METHODS = {''POST'', ''GET'', ''DELETE''}"

text \<open>The bearer gate: true when the request may pass.\<close>

definition auth_ok :: "config \<Rightarrow> headers \<Rightarrow> bool" where
  "auth_ok cfg hs =
     (if falsy (authBearerToken cfg) then True
      else or_empty (get_prop hs ''authorization'') = ''Bearer '' @ or_empty (authBearerToken cfg))"

text \<open>The pre-check on the declared length; \<^verbatim>\<open>Number(undefined ?? 0)\<close> is \<open>0\<close>.\<close>

definition declared_too_large :: "js_runtime \<Rightarrow> config \<Rightarrow> headers \<Rightarrow> bool" where
  "declared_too_large rt cfg hs =
     (case (case get_prop hs ''content-length'' of None \<Rightarrow> Some 0 | Some v \<Rightarrow> js_Number rt v) of
        None \<Rightarrow> False
      | Some contentLength \<Rightarrow> contentLength > real_of_int (maxBodyBytes cfg))"

definition forward_headers :: "request \<Rightarrow> url \<Rightarrow> headers" where
  "forward_headers req u =
     set_prop ''X-Forwarded-For'' (or_empty (remoteAddress req))
       (set_prop ''X-Forwarded-Host'' (or_empty (get_prop (req_headers req) ''host''))
          (set_prop ''X-Forwarded-Proto'' (remove_first CHR '':'' (protocol u))
             (sanitizeRequestHeaders (req_headers req))))"

definition request_options :: "config \<Rightarrow> request \<Rightarrow> url \<Rightarrow> upstream_options" where
  "request_options cfg req u =
     (let target = (upstreamUrl cfg)\<lparr>search := search u\<rparr>
      in \<lparr> up_protocol = protocol target,
           up_hostname = hostname target,
           up_port = (if url_port target = [] then None else Some (url_port target)),
           up_method = or_empty (req_method req),
           up_path = pathname target @ search target,
           up_headers = forward_headers req u,
           up_timeout = upstreamTimeoutMs cfg \<rparr>)"

text \<open>
  The upstream request is opened with \<^verbatim>\<open>upstreamClient.request\<close> and its listeners and
  the limiter are attached; \<open>cors\<close> stays in the closure of the response callback.
\<close>

definition dispatch :: "config \<Rightarrow> request \<Rightarrow> url \<Rightarrow> headers option \<Rightarrow> session" where
  "dispatch cfg req u cors =
     fresh\<lparr>cors_decision := cors, upstreamReq := Some (request_options cfg req u)\<rparr>"

text \<open>\<^verbatim>\<open>String(req.headers.origin ?? "")\<close>.\<close>

definition origin_of :: "request \<Rightarrow> string" where
  "origin_of req = or_empty (get_prop (req_headers req) ''origin'')"

text \<open>\<^verbatim>\<open>new URL(req.url, `http://${req.headers.host ?? "localhost"}`)\<close>.\<close>

definition request_URL :: "js_runtime \<Rightarrow> request \<Rightarrow> url option" where
  "request_URL rt req =
     new_URL rt (or_empty (req_url req))
       (Some (''http://'' @ (case get_prop (req_headers req) ''host'' of
                               None \<Rightarrow> ''localhost'' | Some h \<Rightarrow> h)))"

text \<open>
  \<open>handler rt cfg corsHeadersForOrigin req\<close> is the session when the handler function
  returns: an answer written to \<^verbatim>\<open>res\<close>, or the upstream request opened and the
  listeners registered. \<open>corsHeadersForOrigin\<close> is the dependency the handler is created
  with.
\<close>

definition handler ::
  "js_runtime \<Rightarrow> config \<Rightarrow> (string \<Rightarrow> string set \<Rightarrow> headers option) \<Rightarrow> request \<Rightarrow> session" where
  "handler rt cfg corsHeadersForOrigin req =
     (if falsy (req_url req) \<or> falsy (req_method req)
      then respond 400 plain_headers (Some ''Bad request'') fresh
      else
        (case request_URL rt req of
           None \<Rightarrow> fresh\<lparr>threw := True\<rparr>
         | Some u \<Rightarrow>
            (let path = normalizePath (Some (pathname u));
                 m = or_empty (req_method req)
             in if m = ''GET'' \<and> path = ''/health''
                then respond 200 json_headers (Some health_body) fresh
                else
                  (let orig = origin_of req;
                       cors = corsHeadersForOrigin orig (allowedOrigins cfg)
                   in if m = ''OPTIONS'' \<and> path = mcpPath cfg
                      then (case cors of
                              None \<Rightarrow> respond 403 plain_headers (Some ''Origin not allowed'') fresh
                            | Some c \<Rightarrow>
                                respond 204 (set_prop ''X-Content-Type-Options'' ''nosniff'' c) None fresh)
                      else if path \<noteq> mcpPath cfg \<or> m \<notin> MCP_METHODS
                      then respond 404 plain_headers (Some ''Not found'') fresh
                      else if orig \<noteq> [] \<and> cors = None
                      then respond 403 plain_headers (Some ''Origin not allowed'') fresh
                      else if \<not> auth_ok cfg (req_headers req)
                      then respond 401 plain_headers (Some ''Unauthorized'') fresh
                      else if declared_too_large rt cfg (req_headers req)
                      then respond 413 plain_headers (Some ''Request too large'') fresh
                      else dispatch cfg req u cors))))"

text \<open>
  The classes of the router the claims speak of. A request is proxyable when it reaches
  the origin check that follows the \<^verbatim>\<open>Not found\<close> answer: it has a URL and a method, the
  URL parses, it is not the health check, its path is the configured one and its method
  is one of \<open>MCP_METHODS\<close>. Its origin is denied when the header is there, not empty,
  and the evaluator returned null.
\<close>

definition proxyable :: "js_runtime \<Rightarrow> config \<Rightarrow> request \<Rightarrow> bool" where
  "proxyable rt cfg req =
     (\<not> falsy (req_url req) \<and> \<not> falsy (req_method req) \<and>
      (case request_URL rt req of
         None \<Rightarrow> False
       | Some u \<Rightarrow>
           \<not> (or_empty (req_method req) = ''GET'' \<and> normalizePath (Some (pathname u)) = ''/health'') \<and>
           normalizePath (Some (pathname u)) = mcpPath cfg \<and>
           or_empty (req_method req) \<in> MCP_METHODS))"

definition origin_denied ::
  "config \<Rightarrow> (string \<Rightarrow> string set \<Rightarrow> headers option) \<Rightarrow> request \<Rightarrow> bool" where
  "origin_denied cfg corsHeadersForOrigin req =
     (origin_of req \<noteq> [] \<and> corsHeadersForOrigin (origin_of req) (allowedOrigins cfg) = None)"

subsection \<open>The listeners: what happens after the dispatch\<close>

datatype event =
    ReqData chunk
  | ReqEnd
  | UpstreamResponse "nat option" headers
  | UpstreamData chunk
  | UpstreamEnd
  | UpstreamTimeout
  | UpstreamError js_error
  | ClientClose

text \<open>The listener of the upstream request's \<^verbatim>\<open>error\<close> event.\<close>

definition on_upstream_error :: "js_error \<Rightarrow> session \<Rightarrow> session" where
  "on_upstream_error err s =
     (if headersSent s then res_destroy s
      else (let c = (if code err = Some ''BODY_TOO_LARGE'' then 413 else 502 :: nat)
            in res_end (Some (if c = 413 then ''Request too large'' else ''Bad gateway''))
                 (writeHead c plain_headers s)))"

text \<open>
  \<^verbatim>\<open>upstreamReq.destroy(err)\<close>: nothing on a request already destroyed; otherwise the
  request is destroyed and, given an error, emits it as its \<^verbatim>\<open>error\<close> event.
\<close>

definition upstreamReq_destroy :: "js_error option \<Rightarrow> session \<Rightarrow> session" where
  "upstreamReq_destroy err s =
     (if upstream_destroyed s then s
      else (case err of
              None \<Rightarrow> s\<lparr>upstream_destroyed := True\<rparr>
            | Some e \<Rightarrow> on_upstream_error e (s\<lparr>upstream_destroyed := True\<rparr>)))"

text \<open>
  One event of the platform, handled by the listeners the handler registered (none when it
  answered by itself or threw):
  \<^item> \<open>ReqData\<close>, \<open>ReqEnd\<close>: \<^verbatim>\<open>req.pipe(limiter).pipe(upstreamReq)\<close>; an error of the
    limiter destroys the upstream request with it; a chunk that passes is written to the
    upstream request unless that is destroyed or ended;
  \<^item> \<open>UpstreamResponse\<close>: the response callback, called once and never on a destroyed
    request (\<^verbatim>\<open>writeHead\<close> throws when a head was already written);
  \<^item> \<open>UpstreamData\<close>, \<open>UpstreamEnd\<close>: \<^verbatim>\<open>upstreamRes.pipe(res)\<close>;
  \<^item> \<open>UpstreamTimeout\<close>, \<open>UpstreamError\<close>, \<open>ClientClose\<close>: the listeners of
    \<^verbatim>\<open>timeout\<close> and \<^verbatim>\<open>error\<close> on the upstream request and of \<^verbatim>\<open>close\<close> on \<^verbatim>\<open>res\<close>.
\<close>

definition on_event :: "config \<Rightarrow> event \<Rightarrow> session \<Rightarrow> session" where
  "on_event cfg ev s =
     (if upstreamReq s = None \<or> threw s then s
      else
        (case ev of
           ReqData c \<Rightarrow>
             (if limiter_errored s then s
              else (case transform (maxBodyBytes cfg) (seen s) (Some c) of
                      (n, Inl err) \<Rightarrow>
                        upstreamReq_destroy (Some err) (s\<lparr>seen := n, limiter_errored := True\<rparr>)
                    | (n, Inr out) \<Rightarrow>
                        (if upstream_destroyed s \<or> upstream_ended s then s\<lparr>seen := n\<rparr>
                         else s\<lparr>seen := n,
                                upstream_written :=
                                  upstream_written s @ (case out of None \<Rightarrow> [] | Some d \<Rightarrow> [d])\<rparr>)))
         | ReqEnd \<Rightarrow>
             (if limiter_errored s \<or> upstream_destroyed s then s else s\<lparr>upstream_ended := True\<rparr>)
         | UpstreamResponse st hs \<Rightarrow>
             (if upstream_destroyed s \<or> upstream_responded s then s
              else if headersSent s then s\<lparr>threw := True\<rparr>
              else writeHead (case st of None \<Rightarrow> 502 | Some c \<Rightarrow> c)
                     (outHeaders (cors_decision s) hs) (s\<lparr>upstream_responded := True\<rparr>))
         | UpstreamData d \<Rightarrow>
             (if upstream_responded s \<and> \<not> upstream_destroyed s \<and> \<not> res_ended s
              then send [WBody d] (s\<lparr>res_body := res_body s @ [d]\<rparr>)
              else s)
         | UpstreamEnd \<Rightarrow>
             (if upstream_responded s \<and> \<not> upstream_destroyed s \<and> \<not> res_ended s
              then res_end None s
              else s)
         | UpstreamTimeout \<Rightarrow> upstreamReq_destroy (Some (JsError ''Upstream timeout'' None)) s
         | UpstreamError err \<Rightarrow> on_upstream_error err (s\<lparr>upstream_destroyed := True\<rparr>)
         | ClientClose \<Rightarrow> upstreamReq_destroy None (s\<lparr>client_closed := True\<rparr>)))"

definition run :: "config \<Rightarrow> event list \<Rightarrow> session \<Rightarrow> session" where
  "run cfg evs s = fold (on_event cfg) evs s"

definition serve ::
  "js_runtime \<Rightarrow> config \<Rightarrow> (string \<Rightarrow> string set \<Rightarrow> headers option) \<Rightarrow> request \<Rightarrow> event list \<Rightarrow> session" where
  "serve rt cfg corsHeadersForOrigin req evs = run cfg evs (handler rt cfg corsHeadersForOrigin req)"

subsection \<open>The Origin Policy Evaluator\<close>

text \<open>
  Modelled from the spec: \<^verbatim>\<open>corsHeadersForOrigin\<close> of \<^verbatim>\<open>src/cors.js\<close>, which is not among
  the sources (only its import and its calls are). The spec: allowed, with the headers
  Access-Control-Allow-Origin echoing the exact input origin, Vary: Origin, the allowed
  methods and the allowed headers, only if the input origin exactly equals an allowlist
  entry; otherwise denied. The spec leaves the values of the last two headers open; they
  are the parameters \<open>allowMethods\<close> and \<open>allowHeaders\<close>.
\<close>

definition corsHeadersForOrigin :: "string \<Rightarrow> string \<Rightarrow> string \<Rightarrow> string set \<Rightarrow> headers option" where
  "corsHeadersForOrigin allowMethods allowHeaders orig allowed =
     (if orig \<in> allowed
      then Some [(''Access-Control-Allow-Origin'', orig),
                 (''Vary'', ''Origin''),
                 (''Access-Control-Allow-Methods'', allowMethods),
                 (''Access-Control-Allow-Headers'', allowHeaders)]
      else None)"

subsection \<open>The content-sniffing header\<close>

text \<open>
  A header set carries the content-sniffing-prevention header; a session is safe when the
  head of \<^verbatim>\<open>res\<close>, once written, and every head that went out to the client carry it.
\<close>

definition nosniff :: "headers \<Rightarrow> bool" where
  "nosniff hs = (get_prop hs ''X-Content-Type-Options'' = Some ''nosniff'')"

definition sniff_safe :: "session \<Rightarrow> bool" where
  "sniff_safe s =
     ((headersSent s \<longrightarrow> nosniff (res_headers s)) \<and>
      (\<forall>c hs. WHead c hs \<in> set (delivered s) \<longrightarrow> nosniff hs))"

subsection \<open>Sample inputs\<close>

text \<open>
  A few values of the platform's functions, enough for the examples:
  \<^verbatim>\<open>new URL("/mcp", "http://localhost")\<close> and the like, and \<^verbatim>\<open>Number("11")\<close>.
\<close>

definition local_url :: "string \<Rightarrow> url" where
  "local_url p = \<lparr> protocol = ''http:'', hostname = ''localhost'', url_port = [],
                    pathname = p, search = [], origin = ''http://localhost'' \<rparr>"

definition sample_upstream :: url where
  "sample_upstream = \<lparr> protocol = ''http:'', hostname = ''127.0.0.1'', url_port = ''8788'',
                        pathname = ''/mcp'', search = [], origin = ''http://127.0.0.1:8788'' \<rparr>"

definition proxy_url :: url where
  "proxy_url = \<lparr> protocol = ''http:'', hostname = ''localhost'', url_port = ''8787'',
                  pathname = ''/mcp'', search = [], origin = ''http://localhost:8787'' \<rparr>"

definition sample_runtime :: js_runtime where
  "sample_runtime =
     \<lparr> new_URL = (\<lambda>input base.
         if input = ''/mcp'' \<and> base = Some ''http://localhost'' then Some (local_url ''/mcp'')
         else if input = ''/mcp'' \<and> base = Some ''http://localhost:8787'' then Some proxy_url
         else if input = ''/health'' \<and> base = Some ''http://localhost'' then Some (local_url ''/health'')
         else if input = ''http://127.0.0.1:8788/mcp'' \<and> base = None then Some sample_upstream
         else if input = ''https://a.example/x'' \<and> base = None
         then Some \<lparr> protocol = ''https:'', hostname = ''a.example'', url_port = [],
                     pathname = ''/x'', search = [], origin = ''https://a.example'' \<rparr>
         else None),
       js_Number = (\<lambda>s. if s = ''11'' then Some 11 else if s = ''2'' then Some 2 else None) \<rparr>"

definition sample_config :: config where
  "sample_config =
     \<lparr> port = 8787, mcpPath = ''/mcp'', upstreamUrl = sample_upstream,
       allowedOrigins = {''https://chatgpt.com''}, maxBodyBytes = 10,
       authBearerToken = Some ''secret'', upstreamTimeoutMs = 30000 \<rparr>"

definition open_config :: config where
  "open_config = sample_config\<lparr>authBearerToken := None\<rparr>"

text \<open>
  An evaluator to create the handler with in the examples. On the inputs of the
  repository's tests it answers as they expect: \<^verbatim>\<open>https://chatgpt.com\<close> is allowed and
  echoed, \<^verbatim>\<open>https://evil.example\<close> is denied.
\<close>

definition sample_cors :: "string \<Rightarrow> string set \<Rightarrow> headers option" where
  "sample_cors orig allowed =
     (if orig \<in> allowed then Some [(''Access-Control-Allow-Origin'', orig), (''Vary'', ''Origin'')]
      else None)"

definition sample_env :: "string \<Rightarrow> string + parsed_env" where
  "sample_env origins =
     Inr \<lparr> PORT = 8787, MCP_PATH = ''/mcp'', UPSTREAM_URL = ''http://127.0.0.1:8788/mcp'',
           ALLOWED_ORIGINS = Some origins, MAX_BODY_BYTES = 200000,
           AUTH_BEARER_TOKEN = None, UPSTREAM_TIMEOUT_MS = 30000 \<rparr>"

definition post_mcp :: "headers \<Rightarrow> request" where
  "post_mcp hs = \<lparr> req_url = Some ''/mcp'', req_method = Some ''POST'', req_headers = hs,
                   remoteAddress = Some ''127.0.0.1'' \<rparr>"

section \<open>Properties of the size guard\<close>

lemma total_bytes_Nil [simp]: "total_bytes [] = 0"
  by (simp add: total_bytes_def)

lemma total_bytes_Cons [simp]: "total_bytes (c # cs) = int (length c) + total_bytes cs"
  by (simp add: total_bytes_def)

lemma total_bytes_nonneg: "0 \<le> total_bytes cs"
  by (induction cs) auto

lemma code_body_too_large [simp]: "code body_too_large = Some ''BODY_TOO_LARGE''"
  by (simp add: body_too_large_def)

lemma limiter_stream_Cons:
  "limiter_stream m s (c # cs) =
     (if s + int (length c) > m then ([], Some body_too_large)
      else (c # fst (limiter_stream m (s + int (length c)) cs),
            snd (limiter_stream m (s + int (length c)) cs)))"
  by (simp add: transform_def chunk_length_def Let_def split: prod.splits)

lemma limiter_stream_prefix: "prefix (fst (limiter_stream m s cs)) cs"
  by (induction cs arbitrary: s) (simp_all add: limiter_stream_Cons del: limiter_stream.simps(2))

lemma limiter_stream_within:
  "1 \<le> k \<Longrightarrow> k \<le> length (fst (limiter_stream m s cs)) \<Longrightarrow> s + total_bytes (take k cs) \<le> m"
proof (induction cs arbitrary: s k)
  case Nil
  then show ?case by simp
next
  case (Cons c cs)
  from Cons.prems have fits: "\<not> s + int (length c) > m"
    by (auto simp: limiter_stream_Cons simp del: limiter_stream.simps split: if_splits)
  show ?case
  proof (cases "k = 1")
    case True
    with fits show ?thesis by simp
  next
    case False
    with Cons.prems obtain j where k: "k = Suc j" and j: "1 \<le> j"
      by (cases k) auto
    from Cons.prems fits k
    have "j \<le> length (fst (limiter_stream m (s + int (length c)) cs))"
      by (simp add: limiter_stream_Cons del: limiter_stream.simps(2))
    from Cons.IH [OF j this] k show ?thesis by (simp add: add.assoc)
  qed
qed

lemma limiter_stream_complete:
  "snd (limiter_stream m s cs) = None \<longleftrightarrow> fst (limiter_stream m s cs) = cs"
  by (induction cs arbitrary: s) (simp_all add: limiter_stream_Cons del: limiter_stream.simps(2))

lemma limiter_stream_overflow:
  "snd (limiter_stream m s cs) = Some e \<Longrightarrow>
     e = body_too_large \<and> code e = Some ''BODY_TOO_LARGE'' \<and>
     length (fst (limiter_stream m s cs)) < length cs \<and>
     s + total_bytes (take (Suc (length (fst (limiter_stream m s cs)))) cs) > m"
proof (induction cs arbitrary: s)
  case Nil
  then show ?case by simp
next
  case (Cons c cs)
  show ?case
  proof (cases "s + int (length c) > m")
    case True
    with Cons.prems show ?thesis
      by (auto simp add: limiter_stream_Cons body_too_large_def simp del: limiter_stream.simps(2))
  next
    case False
    with Cons.prems have "snd (limiter_stream m (s + int (length c)) cs) = Some e"
      by (simp add: limiter_stream_Cons del: limiter_stream.simps(2))
    from Cons.IH [OF this] False show ?thesis
      by (simp add: limiter_stream_Cons add.assoc del: limiter_stream.simps(2))
  qed
qed

lemma limiter_stream_online:
  "prefix (fst (limiter_stream m s xs)) (fst (limiter_stream m s (xs @ ys)))"
  by (induction xs arbitrary: s) (simp_all add: limiter_stream_Cons del: limiter_stream.simps(2))

text \<open>
  C3. For every maximum and every sequence of chunks, the guard forwards the chunks
  unchanged and in order (the forwarded list is a prefix of the input) as long as the
  cumulative byte count stays at or below the maximum; it ends without error exactly when
  it forwarded everything; otherwise the error is the one with code \<open>BODY_TOO_LARGE\<close>,
  raised at the first chunk that takes the cumulative count above the maximum, and that
  chunk is not forwarded. No declared content length is an input of the guard. Its only
  state is the count, and what it has forwarded after a part of the body does not depend
  on the chunks that follow: it never holds the body back.
\<close>

theorem size_guard_forwards_until_overflow:
  "prefix (fst (createSizeLimitStream maxBytes cs)) cs \<and>
   (\<forall>k. 1 \<le> k \<and> k \<le> length (fst (createSizeLimitStream maxBytes cs)) \<longrightarrow>
        total_bytes (take k cs) \<le> maxBytes) \<and>
   (snd (createSizeLimitStream maxBytes cs) = None \<longleftrightarrow>
      fst (createSizeLimitStream maxBytes cs) = cs) \<and>
   (\<forall>e. snd (createSizeLimitStream maxBytes cs) = Some e \<longrightarrow>
      e = body_too_large \<and> code e = Some ''BODY_TOO_LARGE'' \<and>
      length (fst (createSizeLimitStream maxBytes cs)) < length cs \<and>
      total_bytes (take (Suc (length (fst (createSizeLimitStream maxBytes cs)))) cs) > maxBytes) \<and>
   prefix (fst (createSizeLimitStream maxBytes cs)) (fst (createSizeLimitStream maxBytes (cs @ later)))"
  unfolding createSizeLimitStream_def
  using limiter_stream_prefix [of maxBytes 0 cs]
    limiter_stream_within [of _ maxBytes 0 cs]
    limiter_stream_complete [of maxBytes 0 cs]
    limiter_stream_overflow [of maxBytes 0 cs]
    limiter_stream_online [of maxBytes 0 cs later]
  by auto

theorem size_guard_forwards_until_overflow_witness:
  "createSizeLimitStream 10 [''01234'', ''56789'', ''0'', ''12''] =
     ([''01234'', ''56789''], Some body_too_large) \<and>
   total_bytes (take 2 [''01234'', ''56789'', ''0'', ''12'']) \<le> 10 \<and>
   total_bytes (take 3 [''01234'', ''56789'', ''0'', ''12'']) > 10 \<and>
   code body_too_large = Some ''BODY_TOO_LARGE''"
  using size_guard_forwards_until_overflow [of 10 "[''01234'', ''56789'', ''0'', ''12'']" "[]"]
  by (simp add: createSizeLimitStream_def limiter_stream_Cons body_too_large_def
      del: limiter_stream.simps(2))

section \<open>Properties of the configuration\<close>

lemma fold_add_origin:
  "fold (add_origin rt) ps S =
     S \<union> {orig. orig \<noteq> [] \<and> (\<exists>p\<in>set ps. normalizeOrigin rt p = Some orig)}"
proof (induction ps arbitrary: S)
  case Nil
  then show ?case by simp
next
  case (Cons p ps)
  have step: "add_origin rt p S =
      S \<union> {orig. orig \<noteq> [] \<and> normalizeOrigin rt p = Some orig}"
    by (cases "normalizeOrigin rt p") (auto simp: add_origin_def)
  have "fold (add_origin rt) (p # ps) S = fold (add_origin rt) ps (add_origin rt p S)"
    by simp
  also have "\<dots> = add_origin rt p S \<union>
      {orig. orig \<noteq> [] \<and> (\<exists>q\<in>set ps. normalizeOrigin rt q = Some orig)}"
    by (rule Cons.IH)
  also have "\<dots> = S \<union>
      {orig. orig \<noteq> [] \<and> (\<exists>q\<in>set (p # ps). normalizeOrigin rt q = Some orig)}"
    unfolding step by auto
  finally show ?case .
qed

lemma parseAllowedOrigins_eq:
  "parseAllowedOrigins rt raw =
     set DEFAULT_ALLOWED_ORIGINS \<union>
     {orig. orig \<noteq> [] \<and> (\<exists>p\<in>set (origin_parts raw). normalizeOrigin rt p = Some orig)}"
  by (simp add: parseAllowedOrigins_def fold_add_origin)

lemma readConfig_Inr:
  "readConfig rt safeParse env = Inr cfg \<Longrightarrow>
     \<exists>d. safeParse env = Inr d \<and> new_URL rt (UPSTREAM_URL d) None \<noteq> None \<and>
         allowedOrigins cfg = parseAllowedOrigins rt (ALLOWED_ORIGINS d)"
  unfolding readConfig_def
  by (cases "safeParse env"; cases "new_URL rt (UPSTREAM_URL (projr (safeParse env))) None") auto

lemma readConfig_succeeds:
  "safeParse env = Inr d \<Longrightarrow> new_URL rt (UPSTREAM_URL d) None \<noteq> None \<Longrightarrow>
     \<exists>cfg. readConfig rt safeParse env = Inr cfg"
  unfolding readConfig_def by (cases "new_URL rt (UPSTREAM_URL d) None") auto

text \<open>
  C10. Whatever the environment and whatever the URL parser does, the set built by
  \<open>parseAllowedOrigins\<close> contains both default origins: it is the defaults together with
  the normalised origin of every entry of \<^verbatim>\<open>ALLOWED_ORIGINS\<close> that normalises, so the
  variable only adds origins and an entry that fails to normalise adds nothing. Config
  loading returns that set whenever it returns a config, and whether it returns one
  depends on the schema and on \<^verbatim>\<open>UPSTREAM_URL\<close> only, never on an origin entry.
\<close>

theorem allowed_origins_keep_defaults:
  "''https://chatgpt.com'' \<in> parseAllowedOrigins rt raw \<and>
   ''https://chat.openai.com'' \<in> parseAllowedOrigins rt raw \<and>
   parseAllowedOrigins rt raw =
     set DEFAULT_ALLOWED_ORIGINS \<union>
     {orig. orig \<noteq> [] \<and> (\<exists>p\<in>set (origin_parts raw). normalizeOrigin rt p = Some orig)} \<and>
   (\<forall>cfg. readConfig rt safeParse env = Inr cfg \<longrightarrow>
      set DEFAULT_ALLOWED_ORIGINS \<subseteq> allowedOrigins cfg \<and>
      (\<exists>d. safeParse env = Inr d \<and>
           allowedOrigins cfg = parseAllowedOrigins rt (ALLOWED_ORIGINS d))) \<and>
   ((\<exists>cfg. readConfig rt safeParse env = Inr cfg) \<longleftrightarrow>
      (\<exists>d. safeParse env = Inr d \<and> new_URL rt (UPSTREAM_URL d) None \<noteq> None))"
proof -
  have defaults: "set DEFAULT_ALLOWED_ORIGINS \<subseteq> parseAllowedOrigins rt r" for r
    by (simp add: parseAllowedOrigins_eq)
  have named: "''https://chatgpt.com'' \<in> set DEFAULT_ALLOWED_ORIGINS"
    "''https://chat.openai.com'' \<in> set DEFAULT_ALLOWED_ORIGINS"
    by (simp_all add: DEFAULT_ALLOWED_ORIGINS_def)
  from named defaults [of raw] have in1: "''https://chatgpt.com'' \<in> parseAllowedOrigins rt raw"
    and in2: "''https://chat.openai.com'' \<in> parseAllowedOrigins rt raw"
    by (simp_all add: subset_iff)
  have loaded: "set DEFAULT_ALLOWED_ORIGINS \<subseteq> allowedOrigins cfg \<and>
      (\<exists>d. safeParse env = Inr d \<and>
           allowedOrigins cfg = parseAllowedOrigins rt (ALLOWED_ORIGINS d))"
    if ok: "readConfig rt safeParse env = Inr cfg" for cfg
  proof -
    from readConfig_Inr [OF ok] obtain d where d: "safeParse env = Inr d"
      "allowedOrigins cfg = parseAllowedOrigins rt (ALLOWED_ORIGINS d)"
      by auto
    from d defaults [of "ALLOWED_ORIGINS d"] show ?thesis by simp
  qed
  have returns: "(\<exists>cfg. readConfig rt safeParse env = Inr cfg) \<longleftrightarrow>
      (\<exists>d. safeParse env = Inr d \<and> new_URL rt (UPSTREAM_URL d) None \<noteq> None)"
  proof
    assume "\<exists>cfg. readConfig rt safeParse env = Inr cfg"
    then obtain cfg where "readConfig rt safeParse env = Inr cfg" ..
    from readConfig_Inr [OF this]
    show "\<exists>d. safeParse env = Inr d \<and> new_URL rt (UPSTREAM_URL d) None \<noteq> None"
      by auto
  next
    assume "\<exists>d. safeParse env = Inr d \<and> new_URL rt (UPSTREAM_URL d) None \<noteq> None"
    then obtain d where "safeParse env = Inr d" "new_URL rt (UPSTREAM_URL d) None \<noteq> None"
      by auto
    then show "\<exists>cfg. readConfig rt safeParse env = Inr cfg"
      by (rule readConfig_succeeds)
  qed
  show ?thesis
  proof (intro conjI allI impI)
    show "''https://chatgpt.com'' \<in> parseAllowedOrigins rt raw" by (rule in1)
    show "''https://chat.openai.com'' \<in> parseAllowedOrigins rt raw" by (rule in2)
    show "parseAllowedOrigins rt raw =
        set DEFAULT_ALLOWED_ORIGINS \<union>
        {orig. orig \<noteq> [] \<and> (\<exists>p\<in>set (origin_parts raw). normalizeOrigin rt p = Some orig)}"
      by (rule parseAllowedOrigins_eq)
    show "set DEFAULT_ALLOWED_ORIGINS \<subseteq> allowedOrigins cfg"
      if "readConfig rt safeParse env = Inr cfg" for cfg
      using loaded [OF that] by simp
    show "\<exists>d. safeParse env = Inr d \<and>
        allowedOrigins cfg = parseAllowedOrigins rt (ALLOWED_ORIGINS d)"
      if "readConfig rt safeParse env = Inr cfg" for cfg
      using loaded [OF that] by simp
    show "(\<exists>cfg. readConfig rt safeParse env = Inr cfg) \<longleftrightarrow>
        (\<exists>d. safeParse env = Inr d \<and> new_URL rt (UPSTREAM_URL d) None \<noteq> None)"
      by (rule returns)
  qed
qed

lemma origin_parts_sample:
  "origin_parts (Some ''https://a.example/x, nonsense,'') = [''https://a.example/x'', ''nonsense'']"
  by (simp add: origin_parts_def trim_def is_js_space_def)

theorem allowed_origins_keep_defaults_witness:
  "parseAllowedOrigins sample_runtime (Some ''https://a.example/x, nonsense,'') =
     {''https://chatgpt.com'', ''https://chat.openai.com'', ''https://a.example''} \<and>
   (\<exists>cfg. readConfig sample_runtime sample_env ''https://a.example/x, nonsense,'' = Inr cfg \<and>
      allowedOrigins cfg =
        {''https://chatgpt.com'', ''https://chat.openai.com'', ''https://a.example''})"
proof -
  have norm: "normalizeOrigin sample_runtime ''https://a.example/x'' = Some ''https://a.example''"
    "normalizeOrigin sample_runtime ''nonsense'' = None"
    by (simp_all add: normalizeOrigin_def sample_runtime_def)
  note eq = allowed_origins_keep_defaults
      [of sample_runtime "Some ''https://a.example/x, nonsense,''" sample_env "[]",
        THEN conjunct2, THEN conjunct2, THEN conjunct1]
  have "{orig. orig \<noteq> [] \<and>
          (\<exists>p\<in>set [''https://a.example/x'', ''nonsense''].
             normalizeOrigin sample_runtime p = Some orig)} = {''https://a.example''}"
    by (auto simp: norm)
  with eq have parsed: "parseAllowedOrigins sample_runtime (Some ''https://a.example/x, nonsense,'') =
     {''https://chatgpt.com'', ''https://chat.openai.com'', ''https://a.example''}"
    by (simp add: origin_parts_sample DEFAULT_ALLOWED_ORIGINS_def insert_commute)
  have "readConfig sample_runtime sample_env ''https://a.example/x, nonsense,'' =
      Inr \<lparr> port = 8787, mcpPath = ''/mcp'', upstreamUrl = sample_upstream,
            allowedOrigins = parseAllowedOrigins sample_runtime (Some ''https://a.example/x, nonsense,''),
            maxBodyBytes = 200000, authBearerToken = None, upstreamTimeoutMs = 30000 \<rparr>"
    by (simp add: readConfig_def sample_env_def sample_runtime_def trim_def)
  with parsed show ?thesis by simp
qed

section \<open>Properties of the Origin Policy Evaluator\<close>

text \<open>
  C1. For every origin string and every allowlist, the evaluator allows exactly when the
  origin is an entry of the allowlist, and denies otherwise. An allow decision carries an
  Access-Control-Allow-Origin header equal to the input origin, which is then an entry of the
  allowlist: no origin outside the allowlist is ever reflected, and the header is the
  wildcard \<open>*\<close> for no allowlist of origins (only if the allowlist itself held the string
  \<open>*\<close>, which is no origin).
\<close>

theorem cors_allows_exactly_the_allowlist:
  "(corsHeadersForOrigin am ah orig allowed \<noteq> None \<longleftrightarrow> orig \<in> allowed) \<and>
   (orig \<notin> allowed \<longrightarrow> corsHeadersForOrigin am ah orig allowed = None) \<and>
   (\<forall>hs. corsHeadersForOrigin am ah orig allowed = Some hs \<longrightarrow>
      get_prop hs ''Access-Control-Allow-Origin'' = Some orig \<and> orig \<in> allowed \<and>
      get_prop hs ''Vary'' = Some ''Origin'' \<and>
      (\<forall>v. get_prop hs ''Access-Control-Allow-Origin'' = Some v \<longrightarrow> v \<in> allowed) \<and>
      (''*'' \<notin> allowed \<longrightarrow> get_prop hs ''Access-Control-Allow-Origin'' \<noteq> Some ''*''))"
  by (auto simp: corsHeadersForOrigin_def get_prop_def)

theorem cors_allows_exactly_the_allowlist_witness:
  "corsHeadersForOrigin ''POST'' ''content-type'' ''https://chatgpt.com'' {''https://chatgpt.com''} =
     Some [(''Access-Control-Allow-Origin'', ''https://chatgpt.com''), (''Vary'', ''Origin''),
           (''Access-Control-Allow-Methods'', ''POST''),
           (''Access-Control-Allow-Headers'', ''content-type'')] \<and>
   corsHeadersForOrigin ''POST'' ''content-type'' ''https://evil.example'' {''https://chatgpt.com''} = None \<and>
   corsHeadersForOrigin ''POST'' ''content-type'' ''*'' {''https://chatgpt.com''} = None"
  using cors_allows_exactly_the_allowlist
      [of "''POST''" "''content-type''" "''https://chatgpt.com''" "{''https://chatgpt.com''}"]
    cors_allows_exactly_the_allowlist
      [of "''POST''" "''content-type''" "''https://evil.example''" "{''https://chatgpt.com''}"]
  by (simp add: corsHeadersForOrigin_def)

section \<open>Properties of objects and header names\<close>

lemma get_prop_Nil: "get_prop [] k = None"
  by (simp add: get_prop_def)

lemma get_prop_Cons: "get_prop ((k0, v0) # ob) k = (if k = k0 then Some v0 else get_prop ob k)"
  by (simp add: get_prop_def)

lemma get_prop_set_prop:
  "get_prop (set_prop k v ob) k' = (if k' = k then Some v else get_prop ob k')"
  by (induction ob) (auto simp: get_prop_def)

lemma keys_conv: "keys ob = set (map fst ob)"
  by (simp add: keys_def)

lemma keys_set_prop: "keys (set_prop k v ob) = insert k (keys ob)"
proof (induction ob)
  case Nil
  show ?case by (simp add: keys_def)
next
  case (Cons e ob)
  obtain k' v' where e: "e = (k', v')" by (cases e)
  show ?case
  proof (cases "k' = k")
    case True
    then show ?thesis by (simp add: e keys_def)
  next
    case False
    with Cons.IH show ?thesis by (simp add: e keys_def insert_commute)
  qed
qed

lemma get_prop_None_iff: "get_prop ob k = None \<longleftrightarrow> k \<notin> keys ob"
  by (simp add: get_prop_def keys_def map_of_eq_None_iff)

lemma keys_assign: "keys (assign t src) = keys t \<union> keys src"
proof (induction src arbitrary: t)
  case Nil
  then show ?case by (simp add: assign_def keys_conv)
next
  case (Cons e src)
  obtain k v where e: "e = (k, v)" by (cases e)
  have "assign t (e # src) = assign (set_prop k v t) src"
    by (simp add: assign_def e)
  then show ?case
    by (simp add: Cons.IH keys_set_prop) (auto simp: keys_conv e)
qed

lemma get_prop_assign_other: "k \<notin> keys src \<Longrightarrow> get_prop (assign t src) k = get_prop t k"
proof (induction src arbitrary: t)
  case Nil
  then show ?case by (simp add: assign_def)
next
  case (Cons e src)
  obtain k0 v0 where e: "e = (k0, v0)" by (cases e)
  have unfold: "assign t (e # src) = assign (set_prop k0 v0 t) src"
    by (simp add: assign_def e)
  from Cons.prems e have "k \<noteq> k0" "k \<notin> keys src"
    by (auto simp: keys_conv)
  with Cons.IH [of "set_prop k0 v0 t"] show ?case
    by (simp add: unfold get_prop_set_prop)
qed

lemma lower_char_idem: "lower_char (lower_char c) = lower_char c"
proof -
  define n where "n = (of_char c :: nat)"
  show ?thesis
  proof (cases "(65 \<le> n \<and> n \<le> 90) \<or> (192 \<le> n \<and> n \<le> 222 \<and> n \<noteq> 215)")
    case True
    then have up: "lower_char c = char_of (n + 32)"
      by (simp add: lower_char_def n_def Let_def)
    from True have "n + 32 < 256" by arith
    then have again: "(of_char (char_of (n + 32)) :: nat) = n + 32"
      by simp
    from True have "\<not> ((65 \<le> n + 32 \<and> n + 32 \<le> 90) \<or>
        (192 \<le> n + 32 \<and> n + 32 \<le> 222 \<and> n + 32 \<noteq> 215))"
      by arith
    then have "lower_char (char_of (n + 32)) = char_of (n + 32)"
      unfolding lower_char_def Let_def again by (simp only: if_False)
    with up show ?thesis by simp
  next
    case False
    then have "lower_char c = c"
      unfolding lower_char_def n_def Let_def by (simp only: if_False)
    then show ?thesis by simp
  qed
qed

lemma toLowerCase_idem: "toLowerCase (toLowerCase s) = toLowerCase s"
  by (simp add: toLowerCase_def lower_char_idem)

lemma isHopByHopHeader_lower: "isHopByHopHeader (toLowerCase k) = isHopByHopHeader k"
  by (simp add: isHopByHopHeader_def toLowerCase_idem)

section \<open>Properties of the header sanitizer\<close>

lemma sanitize_entry_eq:
  "sanitize_entry (k, v) out =
     (if k = [] \<or> toLowerCase k = ''host'' \<or> isHopByHopHeader k then out else set_prop k v out)"
  by (simp add: sanitize_entry_def Let_def isHopByHopHeader_lower)

lemma keys_fold_sanitize:
  "keys (fold sanitize_entry h acc) =
     keys acc \<union> {k \<in> keys h. \<not> (k = [] \<or> toLowerCase k = ''host'' \<or> isHopByHopHeader k)}"
proof (induction h arbitrary: acc)
  case Nil
  then show ?case by (simp add: keys_def)
next
  case (Cons e h)
  obtain k v where e: "e = (k, v)" by (cases e)
  have step: "fold sanitize_entry (e # h) acc = fold sanitize_entry h (sanitize_entry (k, v) acc)"
    by (simp add: e)
  have ks: "keys (e # h) = insert k (keys h)"
    by (simp add: keys_def e)
  show ?case
  proof (cases "k = [] \<or> toLowerCase k = ''host'' \<or> isHopByHopHeader k")
    case True
    then have "sanitize_entry (k, v) acc = acc"
      by (simp only: sanitize_entry_eq if_True)
    with True show ?thesis
      unfolding step ks by (simp add: Cons.IH) blast
  next
    case False
    then have "sanitize_entry (k, v) acc = set_prop k v acc"
      by (simp only: sanitize_entry_eq if_False)
    with False show ?thesis
      unfolding step ks by (simp add: Cons.IH keys_set_prop) blast
  qed
qed

lemma get_prop_fold_sanitize:
  "distinct (map fst h) \<Longrightarrow>
   get_prop (fold sanitize_entry h acc) k =
     (if \<not> (k = [] \<or> toLowerCase k = ''host'' \<or> isHopByHopHeader k) \<and> k \<in> keys h
      then get_prop h k else get_prop acc k)"
proof (induction h arbitrary: acc)
  case Nil
  then show ?case by (simp add: keys_def)
next
  case (Cons e h)
  obtain k0 v0 where e: "e = (k0, v0)" by (cases e)
  from Cons.prems e have fresh_key: "k0 \<notin> keys h" and dist: "distinct (map fst h)"
    by (simp_all add: keys_def)
  have step: "fold sanitize_entry (e # h) acc = fold sanitize_entry h (sanitize_entry (k0, v0) acc)"
    by (simp add: e)
  have ks: "keys (e # h) = insert k0 (keys h)"
    by (simp add: keys_def e)
  have look: "get_prop (e # h) k = (if k = k0 then Some v0 else get_prop h k)"
    by (simp add: e get_prop_Cons)
  show ?case
  proof (cases "k0 = [] \<or> toLowerCase k0 = ''host'' \<or> isHopByHopHeader k0")
    case True
    then have "sanitize_entry (k0, v0) acc = acc"
      by (simp only: sanitize_entry_eq if_True)
    with True fresh_key show ?thesis
      unfolding step ks look by (auto simp: Cons.IH [OF dist])
  next
    case False
    then have "sanitize_entry (k0, v0) acc = set_prop k0 v0 acc"
      by (simp only: sanitize_entry_eq if_False)
    with False fresh_key show ?thesis
      unfolding step ks look by (auto simp: Cons.IH [OF dist] get_prop_set_prop)
  qed
qed

lemma relay_entry_eq:
  "relay_entry (k, v) out = (if k = [] \<or> isHopByHopHeader k then out else set_prop k v out)"
  by (simp add: relay_entry_def Let_def)

lemma keys_fold_relay:
  "keys (fold relay_entry h acc) = keys acc \<union> {k \<in> keys h. \<not> (k = [] \<or> isHopByHopHeader k)}"
proof (induction h arbitrary: acc)
  case Nil
  then show ?case by (simp add: keys_def)
next
  case (Cons e h)
  obtain k v where e: "e = (k, v)" by (cases e)
  have step: "fold relay_entry (e # h) acc = fold relay_entry h (relay_entry (k, v) acc)"
    by (simp add: e)
  have ks: "keys (e # h) = insert k (keys h)"
    by (simp add: keys_def e)
  show ?case
  proof (cases "k = [] \<or> isHopByHopHeader k")
    case True
    then have "relay_entry (k, v) acc = acc"
      by (simp only: relay_entry_eq if_True)
    with True show ?thesis
      unfolding step ks by (simp add: Cons.IH) blast
  next
    case False
    then have "relay_entry (k, v) acc = set_prop k v acc"
      by (simp only: relay_entry_eq if_False)
    with False show ?thesis
      unfolding step ks by (simp add: Cons.IH keys_set_prop) blast
  qed
qed

lemma get_prop_fold_relay:
  "distinct (map fst h) \<Longrightarrow>
   get_prop (fold relay_entry h acc) k =
     (if \<not> (k = [] \<or> isHopByHopHeader k) \<and> k \<in> keys h
      then get_prop h k else get_prop acc k)"
proof (induction h arbitrary: acc)
  case Nil
  then show ?case by (simp add: keys_def)
next
  case (Cons e h)
  obtain k0 v0 where e: "e = (k0, v0)" by (cases e)
  from Cons.prems e have fresh_key: "k0 \<notin> keys h" and dist: "distinct (map fst h)"
    by (simp_all add: keys_def)
  have step: "fold relay_entry (e # h) acc = fold relay_entry h (relay_entry (k0, v0) acc)"
    by (simp add: e)
  have ks: "keys (e # h) = insert k0 (keys h)"
    by (simp add: keys_def e)
  have look: "get_prop (e # h) k = (if k = k0 then Some v0 else get_prop h k)"
    by (simp add: e get_prop_Cons)
  show ?case
  proof (cases "k0 = [] \<or> isHopByHopHeader k0")
    case True
    then have "relay_entry (k0, v0) acc = acc"
      by (simp only: relay_entry_eq if_True)
    with True fresh_key show ?thesis
      unfolding step ks look by (auto simp: Cons.IH [OF dist])
  next
    case False
    then have "relay_entry (k0, v0) acc = set_prop k0 v0 acc"
      by (simp only: relay_entry_eq if_False)
    with False fresh_key show ?thesis
      unfolding step ks look by (auto simp: Cons.IH [OF dist] get_prop_set_prop)
  qed
qed

section \<open>Properties of the handler\<close>

text \<open>
  The equations that evaluate the model on a concrete request: lower-casing, the operations
  on the response, the handler with its helpers, the sample inputs, and the listeners.
\<close>

lemmas lower_eval = toLowerCase_def lower_char_def char_of_eq_iff take_bit_eq_mod

lemmas session_eval = fresh_def respond_def writeHead_def res_end_def res_destroy_def send_def
  dispatch_def

lemmas handler_eval = handler_def request_URL_def falsy_def or_empty_def get_prop_def
  normalizePath_def origin_of_def MCP_METHODS_def auth_ok_def declared_too_large_def
  request_options_def forward_headers_def sanitizeRequestHeaders_def sanitize_entry_def
  isHopByHopHeader_def remove_first_def Let_def

lemmas sample_eval = sample_runtime_def sample_config_def sample_upstream_def local_url_def
  post_mcp_def open_config_def sample_cors_def proxy_url_def

lemmas event_eval = serve_def run_def on_event_def on_upstream_error_def upstreamReq_destroy_def
  transform_def chunk_length_def body_too_large_def outHeaders_def relay_entry_def assign_def

lemma respond_fields:
  "statusCode (respond c hs b fresh) = Some c"
  "headersSent (respond c hs b fresh)"
  "res_headers (respond c hs b fresh) = hs"
  "res_body (respond c hs b fresh) = (case b of None \<Rightarrow> [] | Some x \<Rightarrow> [x])"
  "delivered (respond c hs b fresh) =
     WHead c hs # map WBody (case b of None \<Rightarrow> [] | Some x \<Rightarrow> [x]) @ [WEnd]"
  "upstreamReq (respond c hs b fresh) = None"
  "upstream_written (respond c hs b fresh) = []"
  "\<not> threw (respond c hs b fresh)"
  by (simp_all add: session_eval Let_def split: option.splits)

lemma dispatch_fields:
  "statusCode (dispatch cfg req u cors) = None"
  "\<not> headersSent (dispatch cfg req u cors)"
  "delivered (dispatch cfg req u cors) = []"
  "upstreamReq (dispatch cfg req u cors) = Some (request_options cfg req u)"
  "upstream_written (dispatch cfg req u cors) = []"
  "cors_decision (dispatch cfg req u cors) = cors"
  "\<not> threw (dispatch cfg req u cors)"
  "\<not> upstream_destroyed (dispatch cfg req u cors)"
  by (simp_all add: session_eval)

lemma options_not_mcp: "m \<in> MCP_METHODS \<Longrightarrow> m \<noteq> ''OPTIONS''"
  by (auto simp: MCP_METHODS_def)

lemma handler_proxyable:
  assumes "proxyable rt cfg req"
  shows "\<exists>u. request_URL rt req = Some u \<and>
    handler rt cfg cf req =
      (if origin_denied cfg cf req
       then respond 403 plain_headers (Some ''Origin not allowed'') fresh
       else if \<not> auth_ok cfg (req_headers req)
       then respond 401 plain_headers (Some ''Unauthorized'') fresh
       else if declared_too_large rt cfg (req_headers req)
       then respond 413 plain_headers (Some ''Request too large'') fresh
       else dispatch cfg req u (cf (origin_of req) (allowedOrigins cfg)))"
proof -
  from assms obtain u where u: "request_URL rt req = Some u"
    and present: "\<not> falsy (req_url req)" "\<not> falsy (req_method req)"
    and health: "\<not> (or_empty (req_method req) = ''GET'' \<and> normalizePath (Some (pathname u)) = ''/health'')"
    and path: "normalizePath (Some (pathname u)) = mcpPath cfg"
    and meth: "or_empty (req_method req) \<in> MCP_METHODS"
    by (auto simp: proxyable_def split: option.splits)
  from meth have nopt: "or_empty (req_method req) \<noteq> ''OPTIONS''"
    by (rule options_not_mcp)
  from health path
  have health': "(or_empty (req_method req) = ''GET'' \<and> mcpPath cfg = ''/health'') = False"
    by simp
  have "handler rt cfg cf req =
      (if origin_denied cfg cf req
       then respond 403 plain_headers (Some ''Origin not allowed'') fresh
       else if \<not> auth_ok cfg (req_headers req)
       then respond 401 plain_headers (Some ''Unauthorized'') fresh
       else if declared_too_large rt cfg (req_headers req)
       then respond 413 plain_headers (Some ''Request too large'') fresh
       else dispatch cfg req u (cf (origin_of req) (allowedOrigins cfg)))"
    using present path meth nopt
    by (simp add: handler_def u Let_def origin_denied_def health')
  with u show ?thesis by blast
qed

lemma handler_not_proxyable:
  assumes "\<not> proxyable rt cfg req"
  shows "upstreamReq (handler rt cfg cf req) = None"
proof (cases "falsy (req_url req) \<or> falsy (req_method req)")
  case True
  then show ?thesis by (simp add: handler_def respond_fields)
next
  case False
  show ?thesis
  proof (cases "request_URL rt req")
    case None
    with False show ?thesis by (simp add: handler_def fresh_def)
  next
    case (Some u)
    with False assms
    have "(or_empty (req_method req) = ''GET'' \<and> normalizePath (Some (pathname u)) = ''/health'') \<or>
        normalizePath (Some (pathname u)) \<noteq> mcpPath cfg \<or>
        or_empty (req_method req) \<notin> MCP_METHODS"
      by (auto simp: proxyable_def)
    with False Some show ?thesis
      by (auto simp: handler_def Let_def respond_fields split: option.splits)
  qed
qed

lemma on_event_idle: "upstreamReq s = None \<or> threw s \<Longrightarrow> on_event cfg ev s = s"
  by (simp add: on_event_def)

lemma run_idle: "upstreamReq s = None \<Longrightarrow> run cfg evs s = s"
  by (induction evs) (simp_all add: run_def on_event_idle)

section \<open>The bearer gate\<close>

lemma auth_ok_iff:
  "authBearerToken cfg = Some t \<Longrightarrow> t \<noteq> [] \<Longrightarrow>
     auth_ok cfg hs \<longleftrightarrow> get_prop hs ''authorization'' = Some (''Bearer '' @ t)"
  by (cases "get_prop hs ''authorization''") (simp_all add: auth_ok_def falsy_def or_empty_def)

lemma auth_ok_unconfigured: "falsy (authBearerToken cfg) \<Longrightarrow> auth_ok cfg hs"
  by (simp add: auth_ok_def)

lemma serve_rejected:
  "upstreamReq (handler rt cfg cf req) = None \<Longrightarrow> serve rt cfg cf req evs = handler rt cfg cf req"
  by (simp add: serve_def run_idle)

text \<open>
  C4 (amended). For a proxyable request that the origin policy does not deny, and a
  configured secret: the handler answers 401 Unauthorized, with no upstream request opened
  now or after any later event, exactly when the Authorization header is not the string
  Bearer, a space and the secret. With no secret configured (null or empty) the gate
  never answers 401: the request goes on to the size pre-check and the dispatch whatever its
  Authorization header.
\<close>

theorem bearer_gate:
  "proxyable rt cfg req \<and> \<not> origin_denied cfg cf req \<longrightarrow>
     (\<forall>t. authBearerToken cfg = Some t \<and> t \<noteq> [] \<longrightarrow>
        ((statusCode (handler rt cfg cf req) = Some 401 \<and>
          res_body (handler rt cfg cf req) = [''Unauthorized''] \<and>
          upstreamReq (handler rt cfg cf req) = None)
         \<longleftrightarrow> get_prop (req_headers req) ''authorization'' \<noteq> Some (''Bearer '' @ t)) \<and>
        (get_prop (req_headers req) ''authorization'' \<noteq> Some (''Bearer '' @ t) \<longrightarrow>
           (\<forall>evs. upstreamReq (serve rt cfg cf req evs) = None))) \<and>
     (falsy (authBearerToken cfg) \<longrightarrow>
        statusCode (handler rt cfg cf req) \<noteq> Some 401 \<and>
        (\<exists>u. request_URL rt req = Some u \<and>
           handler rt cfg cf req =
             (if declared_too_large rt cfg (req_headers req)
              then respond 413 plain_headers (Some ''Request too large'') fresh
              else dispatch cfg req u (cf (origin_of req) (allowedOrigins cfg)))))"
proof -
  have gate: "((statusCode (handler rt cfg cf req) = Some 401 \<and>
          res_body (handler rt cfg cf req) = [''Unauthorized''] \<and>
          upstreamReq (handler rt cfg cf req) = None)
         \<longleftrightarrow> get_prop (req_headers req) ''authorization'' \<noteq> Some (''Bearer '' @ t)) \<and>
        (get_prop (req_headers req) ''authorization'' \<noteq> Some (''Bearer '' @ t) \<longrightarrow>
           (\<forall>evs. upstreamReq (serve rt cfg cf req evs) = None))"
    if p: "proxyable rt cfg req" and o: "\<not> origin_denied cfg cf req"
      and t: "authBearerToken cfg = Some t" "t \<noteq> []" for t
  proof -
    from handler_proxyable [OF p, of cf] o obtain u where
      h: "handler rt cfg cf req =
        (if \<not> auth_ok cfg (req_headers req)
         then respond 401 plain_headers (Some ''Unauthorized'') fresh
         else if declared_too_large rt cfg (req_headers req)
         then respond 413 plain_headers (Some ''Request too large'') fresh
         else dispatch cfg req u (cf (origin_of req) (allowedOrigins cfg)))"
      by auto
    have iff: "(statusCode (handler rt cfg cf req) = Some 401 \<and>
          res_body (handler rt cfg cf req) = [''Unauthorized''] \<and>
          upstreamReq (handler rt cfg cf req) = None)
         \<longleftrightarrow> get_prop (req_headers req) ''authorization'' \<noteq> Some (''Bearer '' @ t)"
      unfolding h auth_ok_iff [OF t, symmetric]
      by (simp add: respond_fields dispatch_fields)
    have never: "\<forall>evs. upstreamReq (serve rt cfg cf req evs) = None"
      if "get_prop (req_headers req) ''authorization'' \<noteq> Some (''Bearer '' @ t)"
    proof -
      from that have "\<not> auth_ok cfg (req_headers req)"
        by (simp add: auth_ok_iff [OF t])
      then have "upstreamReq (handler rt cfg cf req) = None"
        by (simp add: h respond_fields)
      then show ?thesis
        by (simp add: serve_rejected)
    qed
    from iff never show ?thesis by blast
  qed
  have pass: "statusCode (handler rt cfg cf req) \<noteq> Some 401 \<and>
        (\<exists>u. request_URL rt req = Some u \<and>
           handler rt cfg cf req =
             (if declared_too_large rt cfg (req_headers req)
              then respond 413 plain_headers (Some ''Request too large'') fresh
              else dispatch cfg req u (cf (origin_of req) (allowedOrigins cfg))))"
    if p: "proxyable rt cfg req" and o: "\<not> origin_denied cfg cf req"
      and f: "falsy (authBearerToken cfg)"
  proof -
    from handler_proxyable [OF p, of cf] o auth_ok_unconfigured [OF f] obtain u where
      u: "request_URL rt req = Some u" and
      h: "handler rt cfg cf req =
        (if declared_too_large rt cfg (req_headers req)
         then respond 413 plain_headers (Some ''Request too large'') fresh
         else dispatch cfg req u (cf (origin_of req) (allowedOrigins cfg)))"
      by auto
    have "statusCode (handler rt cfg cf req) \<noteq> Some 401"
      by (simp add: h respond_fields dispatch_fields)
    with u h show ?thesis by blast
  qed
  show ?thesis
  proof (intro impI)
    assume a: "proxyable rt cfg req \<and> \<not> origin_denied cfg cf req"
    then have p: "proxyable rt cfg req" and o: "\<not> origin_denied cfg cf req"
      by simp_all
    show "(\<forall>t. authBearerToken cfg = Some t \<and> t \<noteq> [] \<longrightarrow>
        ((statusCode (handler rt cfg cf req) = Some 401 \<and>
          res_body (handler rt cfg cf req) = [''Unauthorized''] \<and>
          upstreamReq (handler rt cfg cf req) = None)
         \<longleftrightarrow> get_prop (req_headers req) ''authorization'' \<noteq> Some (''Bearer '' @ t)) \<and>
        (get_prop (req_headers req) ''authorization'' \<noteq> Some (''Bearer '' @ t) \<longrightarrow>
           (\<forall>evs. upstreamReq (serve rt cfg cf req evs) = None))) \<and>
     (falsy (authBearerToken cfg) \<longrightarrow>
        statusCode (handler rt cfg cf req) \<noteq> Some 401 \<and>
        (\<exists>u. request_URL rt req = Some u \<and>
           handler rt cfg cf req =
             (if declared_too_large rt cfg (req_headers req)
              then respond 413 plain_headers (Some ''Request too large'') fresh
              else dispatch cfg req u (cf (origin_of req) (allowedOrigins cfg)))))"
      using gate [OF p o] pass [OF p o] by blast
  qed
qed


theorem bearer_gate_witness:
  "proxyable sample_runtime sample_config (post_mcp [(''authorization'', ''Bearer wrong'')]) \<and>
   \<not> origin_denied sample_config sample_cors (post_mcp [(''authorization'', ''Bearer wrong'')]) \<and>
   authBearerToken sample_config = Some ''secret'' \<and>
   statusCode (handler sample_runtime sample_config sample_cors
      (post_mcp [(''authorization'', ''Bearer wrong'')])) = Some 401 \<and>
   res_body (handler sample_runtime sample_config sample_cors
      (post_mcp [(''authorization'', ''Bearer wrong'')])) = [''Unauthorized''] \<and>
   upstreamReq (serve sample_runtime sample_config sample_cors
      (post_mcp [(''authorization'', ''Bearer wrong'')]) [ReqData ''{}'', ReqEnd]) = None"
  using bearer_gate [of sample_runtime sample_config "post_mcp [(''authorization'', ''Bearer wrong'')]"
      sample_cors]
  by (simp add: proxyable_def origin_denied_def handler_eval sample_eval session_eval lower_eval)

text \<open>
  Without the restriction to requests that the origin policy lets through, the equivalence
  of C4 fails: the secret is configured, the request is proxyable and has no Authorization
  header, its Origin is denied, and the answer is 403 Origin not allowed, not 401.
\<close>

theorem bearer_gate_yields_to_origin_check:
  "proxyable sample_runtime sample_config (post_mcp [(''origin'', ''https://evil.example'')]) \<and>
   authBearerToken sample_config = Some ''secret'' \<and>
   get_prop (req_headers (post_mcp [(''origin'', ''https://evil.example'')])) ''authorization'' = None \<and>
   sample_cors ''https://evil.example'' (allowedOrigins sample_config) = None \<and>
   statusCode (handler sample_runtime sample_config sample_cors
      (post_mcp [(''origin'', ''https://evil.example'')])) = Some 403 \<and>
   res_body (handler sample_runtime sample_config sample_cors
      (post_mcp [(''origin'', ''https://evil.example'')])) = [''Origin not allowed'']"
  by (simp add: proxyable_def handler_eval sample_eval session_eval lower_eval)

section \<open>Requests without an Origin header\<close>

lemma origin_of_empty_iff:
  "origin_of req = [] \<longleftrightarrow> get_prop (req_headers req) ''origin'' \<in> {None, Some []}"
  by (cases "get_prop (req_headers req) ''origin''") (simp_all add: origin_of_def or_empty_def)

text \<open>
  C7 (amended). For every proxyable request with no Origin header (or an empty one), the
  origin policy does not deny: the answer is never 403, the request reaches the bearer
  gate, is answered 401 when the gate refuses it, and when the gate passes it the size
  pre-check decides: 413 with no upstream request for a declared length above the
  maximum, the dispatch to the upstream otherwise. For every proxyable request, the handler
  answers 403 exactly when the Origin header is present, not empty, and denied by the
  evaluator.
\<close>

theorem missing_origin_is_not_denied:
  "proxyable rt cfg req \<longrightarrow>
     (origin_of req = [] \<longrightarrow>
        statusCode (handler rt cfg cf req) \<noteq> Some 403 \<and>
        (\<not> auth_ok cfg (req_headers req) \<longrightarrow> statusCode (handler rt cfg cf req) = Some 401) \<and>
        (auth_ok cfg (req_headers req) \<and> declared_too_large rt cfg (req_headers req) \<longrightarrow>
           statusCode (handler rt cfg cf req) = Some 413 \<and>
           upstreamReq (handler rt cfg cf req) = None) \<and>
        (auth_ok cfg (req_headers req) \<and> \<not> declared_too_large rt cfg (req_headers req) \<longrightarrow>
           (\<exists>u. request_URL rt req = Some u \<and>
              handler rt cfg cf req = dispatch cfg req u (cf [] (allowedOrigins cfg)) \<and>
              upstreamReq (handler rt cfg cf req) = Some (request_options cfg req u)))) \<and>
     (statusCode (handler rt cfg cf req) = Some 403 \<longleftrightarrow>
        origin_of req \<noteq> [] \<and> cf (origin_of req) (allowedOrigins cfg) = None) \<and>
     (origin_of req = [] \<longleftrightarrow> get_prop (req_headers req) ''origin'' \<in> {None, Some []})"
proof
  assume p: "proxyable rt cfg req"
  from handler_proxyable [OF p, of cf] obtain u where
    u: "request_URL rt req = Some u" and
    h: "handler rt cfg cf req =
      (if origin_denied cfg cf req
       then respond 403 plain_headers (Some ''Origin not allowed'') fresh
       else if \<not> auth_ok cfg (req_headers req)
       then respond 401 plain_headers (Some ''Unauthorized'') fresh
       else if declared_too_large rt cfg (req_headers req)
       then respond 413 plain_headers (Some ''Request too large'') fresh
       else dispatch cfg req u (cf (origin_of req) (allowedOrigins cfg)))"
    by auto
  have absent: "statusCode (handler rt cfg cf req) \<noteq> Some 403 \<and>
        (\<not> auth_ok cfg (req_headers req) \<longrightarrow> statusCode (handler rt cfg cf req) = Some 401) \<and>
        (auth_ok cfg (req_headers req) \<and> declared_too_large rt cfg (req_headers req) \<longrightarrow>
           statusCode (handler rt cfg cf req) = Some 413 \<and>
           upstreamReq (handler rt cfg cf req) = None) \<and>
        (auth_ok cfg (req_headers req) \<and> \<not> declared_too_large rt cfg (req_headers req) \<longrightarrow>
           (\<exists>u. request_URL rt req = Some u \<and>
              handler rt cfg cf req = dispatch cfg req u (cf [] (allowedOrigins cfg)) \<and>
              upstreamReq (handler rt cfg cf req) = Some (request_options cfg req u)))"
    if e: "origin_of req = []"
  proof -
    from e have nd: "\<not> origin_denied cfg cf req"
      by (simp add: origin_denied_def)
    show ?thesis
      unfolding h using nd u e
      by (simp add: respond_fields dispatch_fields)
  qed
  have denied: "statusCode (handler rt cfg cf req) = Some 403 \<longleftrightarrow>
        origin_of req \<noteq> [] \<and> cf (origin_of req) (allowedOrigins cfg) = None"
    unfolding h
    by (simp add: respond_fields dispatch_fields origin_denied_def)
  from absent denied origin_of_empty_iff [of req]
  show "(origin_of req = [] \<longrightarrow>
        statusCode (handler rt cfg cf req) \<noteq> Some 403 \<and>
        (\<not> auth_ok cfg (req_headers req) \<longrightarrow> statusCode (handler rt cfg cf req) = Some 401) \<and>
        (auth_ok cfg (req_headers req) \<and> declared_too_large rt cfg (req_headers req) \<longrightarrow>
           statusCode (handler rt cfg cf req) = Some 413 \<and>
           upstreamReq (handler rt cfg cf req) = None) \<and>
        (auth_ok cfg (req_headers req) \<and> \<not> declared_too_large rt cfg (req_headers req) \<longrightarrow>
           (\<exists>u. request_URL rt req = Some u \<and>
              handler rt cfg cf req = dispatch cfg req u (cf [] (allowedOrigins cfg)) \<and>
              upstreamReq (handler rt cfg cf req) = Some (request_options cfg req u)))) \<and>
     (statusCode (handler rt cfg cf req) = Some 403 \<longleftrightarrow>
        origin_of req \<noteq> [] \<and> cf (origin_of req) (allowedOrigins cfg) = None) \<and>
     (origin_of req = [] \<longleftrightarrow> get_prop (req_headers req) ''origin'' \<in> {None, Some []})"
    by blast
qed

theorem missing_origin_is_not_denied_witness:
  "proxyable sample_runtime sample_config (post_mcp [(''authorization'', ''Bearer secret'')]) \<and>
   origin_of (post_mcp [(''authorization'', ''Bearer secret'')]) = [] \<and>
   auth_ok sample_config (req_headers (post_mcp [(''authorization'', ''Bearer secret'')])) \<and>
   \<not> declared_too_large sample_runtime sample_config
       (req_headers (post_mcp [(''authorization'', ''Bearer secret'')])) \<and>
   statusCode (handler sample_runtime sample_config sample_cors
      (post_mcp [(''authorization'', ''Bearer secret'')])) = None \<and>
   upstreamReq (handler sample_runtime sample_config sample_cors
      (post_mcp [(''authorization'', ''Bearer secret'')])) =
     Some (request_options sample_config (post_mcp [(''authorization'', ''Bearer secret'')])
            (local_url ''/mcp''))"
  using missing_origin_is_not_denied
    [of sample_runtime sample_config "post_mcp [(''authorization'', ''Bearer secret'')]" sample_cors]
  by (simp add: proxyable_def handler_eval sample_eval session_eval lower_eval)

text \<open>
  A proxyable request with no Origin header that passes the bearer gate is not always
  forwarded: with a declared length of 11 against a maximum of 10 it is answered 413 and no
  upstream request is opened.
\<close>

theorem missing_origin_stopped_by_size_check:
  "proxyable sample_runtime open_config (post_mcp [(''content-length'', ''11'')]) \<and>
   get_prop (req_headers (post_mcp [(''content-length'', ''11'')])) ''origin'' = None \<and>
   auth_ok open_config (req_headers (post_mcp [(''content-length'', ''11'')])) \<and>
   statusCode (handler sample_runtime open_config sample_cors
      (post_mcp [(''content-length'', ''11'')])) = Some 413 \<and>
   upstreamReq (handler sample_runtime open_config sample_cors
      (post_mcp [(''content-length'', ''11'')])) = None"
  by (simp add: proxyable_def handler_eval sample_eval session_eval lower_eval)

section \<open>Rejections and the upstream request\<close>

lemma overflow_step:
  assumes "upstreamReq s \<noteq> None" "\<not> threw s" "\<not> limiter_errored s"
    and "seen s + int (length c) > maxBodyBytes cfg"
  shows "on_event cfg (ReqData c) s =
    upstreamReq_destroy (Some body_too_large)
      (s\<lparr>seen := seen s + int (length c), limiter_errored := True\<rparr>)"
  using assms by (auto simp add: on_event_def transform_def chunk_length_def Let_def)

lemma destroy_with_error_fields:
  "upstream_destroyed (upstreamReq_destroy (Some e) s)"
  "upstream_written (upstreamReq_destroy (Some e) s) = upstream_written s"
  "upstreamReq (upstreamReq_destroy (Some e) s) = upstreamReq s"
  by (simp_all add: upstreamReq_destroy_def on_upstream_error_def session_eval Let_def)

lemma on_upstream_error_unsent:
  "\<not> headersSent s \<Longrightarrow>
     statusCode (on_upstream_error e s) = Some (if code e = Some ''BODY_TOO_LARGE'' then 413 else 502) \<and>
     res_headers (on_upstream_error e s) = plain_headers \<and>
     res_body (on_upstream_error e s) =
       res_body s @ [if code e = Some ''BODY_TOO_LARGE'' then ''Request too large'' else ''Bad gateway''] \<and>
     res_ended (on_upstream_error e s) \<and> headersSent (on_upstream_error e s) \<and>
     res_destroyed (on_upstream_error e s) = res_destroyed s"
  by (simp add: on_upstream_error_def session_eval Let_def)

lemma on_upstream_error_sent:
  "headersSent s \<Longrightarrow>
     res_destroyed (on_upstream_error e s) \<and>
     statusCode (on_upstream_error e s) = statusCode s \<and>
     res_headers (on_upstream_error e s) = res_headers s \<and>
     res_body (on_upstream_error e s) = res_body s \<and>
     headersSent (on_upstream_error e s) \<and>
     res_ended (on_upstream_error e s) = res_ended s"
  by (simp add: on_upstream_error_def session_eval Let_def)

text \<open>
  C2 (amended). Whenever the handler answers by itself (400, 401, 403, 404, 413 by the
  pre-check, and the health and preflight answers), no upstream request has been opened,
  and no later event opens one or writes to one: the session stays as the handler left
  it. That is the case of every request that is not proxyable, and of every proxyable
  request whose origin is denied, whose bearer token is refused, or whose declared length
  exceeds the maximum. An overflow found while streaming is a different case: it is found
  by the limiter of a session whose upstream request is already open; the chunk that
  overflows is not written to it, the request is destroyed, and the client is answered 413
  if no head was sent; what was written to the upstream before stays written.
\<close>

theorem rejections_before_dispatch:
  "(statusCode (handler rt cfg cf req) \<noteq> None \<longrightarrow>
      upstreamReq (handler rt cfg cf req) = None \<and>
      (\<forall>evs. serve rt cfg cf req evs = handler rt cfg cf req)) \<and>
   (\<not> proxyable rt cfg req \<longrightarrow> (\<forall>evs. upstreamReq (serve rt cfg cf req evs) = None)) \<and>
   (proxyable rt cfg req \<and>
    (origin_denied cfg cf req \<or> \<not> auth_ok cfg (req_headers req) \<or>
     declared_too_large rt cfg (req_headers req)) \<longrightarrow>
      statusCode (handler rt cfg cf req) \<in> {Some 403, Some 401, Some 413} \<and>
      (\<forall>evs. upstreamReq (serve rt cfg cf req evs) = None \<and>
             upstream_written (serve rt cfg cf req evs) = [])) \<and>
   (upstreamReq s \<noteq> None \<and> \<not> threw s \<and> \<not> limiter_errored s \<and>
    seen s + int (length c) > maxBodyBytes cfg \<longrightarrow>
      upstreamReq (on_event cfg (ReqData c) s) = upstreamReq s \<and>
      upstream_destroyed (on_event cfg (ReqData c) s) \<and>
      upstream_written (on_event cfg (ReqData c) s) = upstream_written s \<and>
      (\<not> upstream_destroyed s \<and> \<not> headersSent s \<longrightarrow>
         statusCode (on_event cfg (ReqData c) s) = Some 413 \<and>
         res_body (on_event cfg (ReqData c) s) = res_body s @ [''Request too large'']))"
proof -
  have answered: "upstreamReq (handler rt cfg cf req) = None"
    if "statusCode (handler rt cfg cf req) \<noteq> None"
  proof (cases "proxyable rt cfg req")
    case True
    from handler_proxyable [OF True, of cf] that show ?thesis
      by (auto simp: respond_fields dispatch_fields split: if_splits)
  next
    case False
    then show ?thesis by (rule handler_not_proxyable)
  qed
  have a: "statusCode (handler rt cfg cf req) \<noteq> None \<longrightarrow>
      upstreamReq (handler rt cfg cf req) = None \<and>
      (\<forall>evs. serve rt cfg cf req evs = handler rt cfg cf req)"
    using answered by (simp add: serve_rejected)
  have b: "\<not> proxyable rt cfg req \<longrightarrow> (\<forall>evs. upstreamReq (serve rt cfg cf req evs) = None)"
    using handler_not_proxyable [of rt cfg req cf] by (simp add: serve_rejected)
  have c: "statusCode (handler rt cfg cf req) \<in> {Some 403, Some 401, Some 413} \<and>
      (\<forall>evs. upstreamReq (serve rt cfg cf req evs) = None \<and>
             upstream_written (serve rt cfg cf req evs) = [])"
    if p: "proxyable rt cfg req"
      and r: "origin_denied cfg cf req \<or> \<not> auth_ok cfg (req_headers req) \<or>
        declared_too_large rt cfg (req_headers req)"
  proof -
    from handler_proxyable [OF p, of cf] r obtain code msg where
      h: "handler rt cfg cf req = respond code plain_headers (Some msg) fresh"
      and code: "code \<in> {403, 401, 413}"
      by (auto split: if_splits)
    from h have "upstreamReq (handler rt cfg cf req) = None"
      by (simp add: respond_fields)
    then have "serve rt cfg cf req evs = handler rt cfg cf req" for evs
      by (rule serve_rejected)
    with h code show ?thesis
      by (auto simp: respond_fields)
  qed
  have d: "upstreamReq (on_event cfg (ReqData c) s) = upstreamReq s \<and>
      upstream_destroyed (on_event cfg (ReqData c) s) \<and>
      upstream_written (on_event cfg (ReqData c) s) = upstream_written s \<and>
      (\<not> upstream_destroyed s \<and> \<not> headersSent s \<longrightarrow>
         statusCode (on_event cfg (ReqData c) s) = Some 413 \<and>
         res_body (on_event cfg (ReqData c) s) = res_body s @ [''Request too large''])"
    if live: "upstreamReq s \<noteq> None" "\<not> threw s" "\<not> limiter_errored s"
      and over: "seen s + int (length c) > maxBodyBytes cfg"
  proof -
    let ?s = "s\<lparr>seen := seen s + int (length c), limiter_errored := True\<rparr>"
    have step: "on_event cfg (ReqData c) s = upstreamReq_destroy (Some body_too_large) ?s"
      using live over by (rule overflow_step)
    have "statusCode (upstreamReq_destroy (Some body_too_large) ?s) = Some 413 \<and>
        res_body (upstreamReq_destroy (Some body_too_large) ?s) = res_body s @ [''Request too large'']"
      if "\<not> upstream_destroyed s" "\<not> headersSent s"
      using that on_upstream_error_unsent [of "?s\<lparr>upstream_destroyed := True\<rparr>" body_too_large]
      by (simp add: upstreamReq_destroy_def)
    then show ?thesis
      unfolding step by (simp add: destroy_with_error_fields)
  qed
  from a b c d show ?thesis by blast
qed

theorem rejections_before_dispatch_witness:
  "proxyable sample_runtime open_config (post_mcp [(''content-length'', ''11'')]) \<and>
   declared_too_large sample_runtime open_config (req_headers (post_mcp [(''content-length'', ''11'')])) \<and>
   statusCode (handler sample_runtime open_config sample_cors
      (post_mcp [(''content-length'', ''11'')])) = Some 413 \<and>
   upstreamReq (serve sample_runtime open_config sample_cors
      (post_mcp [(''content-length'', ''11'')]) [ReqData ''01234567890'', ReqEnd]) = None \<and>
   upstream_written (serve sample_runtime open_config sample_cors
      (post_mcp [(''content-length'', ''11'')]) [ReqData ''01234567890'', ReqEnd]) = []"
  using rejections_before_dispatch
    [of sample_runtime open_config sample_cors "post_mcp [(''content-length'', ''11'')]"]
  by (simp add: proxyable_def handler_eval sample_eval session_eval lower_eval)

text \<open>
  A rejection by streaming overflow is not resolved before the upstream request is opened:
  with a maximum of 10 bytes and no declared length, the handler opens the upstream request;
  the first chunk of 5 bytes is written to it; the second, of 7 bytes, overflows, and the
  client is answered 413.
\<close>

theorem streaming_overflow_after_dispatch:
  "statusCode (handler sample_runtime open_config sample_cors (post_mcp [])) = None \<and>
   upstreamReq (handler sample_runtime open_config sample_cors (post_mcp [])) =
     Some (request_options open_config (post_mcp []) (local_url ''/mcp'')) \<and>
   statusCode (serve sample_runtime open_config sample_cors (post_mcp [])
      [ReqData ''01234'', ReqData ''5678901'']) = Some 413 \<and>
   upstreamReq (serve sample_runtime open_config sample_cors (post_mcp [])
      [ReqData ''01234'', ReqData ''5678901'']) =
     Some (request_options open_config (post_mcp []) (local_url ''/mcp'')) \<and>
   upstream_written (serve sample_runtime open_config sample_cors (post_mcp [])
      [ReqData ''01234'', ReqData ''5678901'']) = [''01234'']"
  by (simp add: handler_eval sample_eval session_eval lower_eval event_eval)

section \<open>Properties of the header sets\<close>

lemma isHopByHopHeader_iff:
  "isHopByHopHeader k \<longleftrightarrow>
     toLowerCase k \<in> {''connection'', ''keep-alive'', ''proxy-authenticate'', ''proxy-authorization'',
                        ''te'', ''trailer'', ''transfer-encoding'', ''upgrade''}"
  by (simp add: isHopByHopHeader_def Let_def)

lemma forwarded_names:
  "toLowerCase ''X-Forwarded-Proto'' = ''x-forwarded-proto''"
  "toLowerCase ''X-Forwarded-Host'' = ''x-forwarded-host''"
  "toLowerCase ''X-Forwarded-For'' = ''x-forwarded-for''"
  "toLowerCase ''X-Content-Type-Options'' = ''x-content-type-options''"
  by (simp_all add: lower_eval)

lemma forwarded_names_kept:
  "\<not> isHopByHopHeader ''X-Forwarded-Proto''"
  "\<not> isHopByHopHeader ''X-Forwarded-Host''"
  "\<not> isHopByHopHeader ''X-Forwarded-For''"
  "\<not> isHopByHopHeader ''X-Content-Type-Options''"
  by (simp_all add: isHopByHopHeader_iff forwarded_names)

lemma keys_empty: "keys [] = {}"
  by (simp add: keys_def)

lemma keys_forward_headers:
  "keys (forward_headers req u) =
     {''X-Forwarded-Proto'', ''X-Forwarded-Host'', ''X-Forwarded-For''} \<union>
     {k \<in> keys (req_headers req). \<not> (k = [] \<or> toLowerCase k = ''host'' \<or> isHopByHopHeader k)}"
  by (simp add: forward_headers_def sanitizeRequestHeaders_def keys_set_prop keys_fold_sanitize
      keys_empty insert_commute)

lemma forward_headers_clean:
  assumes "k \<in> keys (forward_headers req u)"
  shows "k \<noteq> [] \<and> toLowerCase k \<noteq> ''host'' \<and> \<not> isHopByHopHeader k"
proof -
  from assms keys_forward_headers [of req u]
  consider "k = ''X-Forwarded-Proto''" | "k = ''X-Forwarded-Host''" | "k = ''X-Forwarded-For''"
    | "\<not> (k = [] \<or> toLowerCase k = ''host'' \<or> isHopByHopHeader k)"
    by blast
  then show ?thesis
    by cases (simp_all add: forwarded_names forwarded_names_kept)
qed

lemma forward_headers_pass:
  assumes "distinct (map fst (req_headers req))"
    and "k \<noteq> []" "toLowerCase k \<noteq> ''host''" "\<not> isHopByHopHeader k"
    and "k \<notin> {''X-Forwarded-Proto'', ''X-Forwarded-Host'', ''X-Forwarded-For''}"
  shows "get_prop (forward_headers req u) k = get_prop (req_headers req) k"
proof -
  have "get_prop (forward_headers req u) k = get_prop (sanitizeRequestHeaders (req_headers req)) k"
    using assms(5) by (simp add: forward_headers_def get_prop_set_prop)
  also have "\<dots> = (if k \<in> keys (req_headers req) then get_prop (req_headers req) k else None)"
    using assms(2-4)
    by (simp add: sanitizeRequestHeaders_def get_prop_fold_sanitize [OF assms(1)] get_prop_Nil)
  also have "\<dots> = get_prop (req_headers req) k"
    using get_prop_None_iff [of "req_headers req" k] by auto
  finally show ?thesis .
qed

lemma forward_headers_metadata:
  "get_prop (forward_headers req u) ''X-Forwarded-Proto'' = Some (remove_first CHR '':'' (protocol u))"
  "get_prop (forward_headers req u) ''X-Forwarded-Host'' = Some (or_empty (get_prop (req_headers req) ''host''))"
  "get_prop (forward_headers req u) ''X-Forwarded-For'' = Some (or_empty (remoteAddress req))"
  by (simp_all add: forward_headers_def get_prop_set_prop)

lemma keys_outHeaders:
  "keys (outHeaders cors up) =
     insert ''X-Content-Type-Options''
       (keys (case cors of None \<Rightarrow> [] | Some c \<Rightarrow> c) \<union>
        {k \<in> keys up. \<not> (k = [] \<or> isHopByHopHeader k)})"
  by (cases cors)
     (simp_all add: outHeaders_def Let_def keys_set_prop keys_assign keys_fold_relay keys_empty
        Un_commute)

lemma outHeaders_clean:
  assumes "k \<in> keys (outHeaders cors up)" "isHopByHopHeader k"
  shows "k \<in> keys (case cors of None \<Rightarrow> [] | Some c \<Rightarrow> c)"
  using assms forwarded_names_kept(4) unfolding keys_outHeaders by auto

lemma outHeaders_pass:
  assumes "distinct (map fst up)"
    and "k \<noteq> []" "\<not> isHopByHopHeader k"
    and "k \<notin> keys (case cors of None \<Rightarrow> [] | Some c \<Rightarrow> c)"
    and "k \<noteq> ''X-Content-Type-Options''"
  shows "get_prop (outHeaders cors up) k = get_prop up k"
proof -
  have filtered: "get_prop (fold relay_entry up []) k = get_prop up k"
    using assms(2,3) get_prop_None_iff [of up k]
    by (auto simp: get_prop_fold_relay [OF assms(1)] get_prop_Nil)
  show ?thesis
  proof (cases cors)
    case None
    with assms(5) filtered show ?thesis
      by (simp add: outHeaders_def Let_def get_prop_set_prop)
  next
    case (Some c)
    with assms(4) have "k \<notin> keys c" by simp
    from get_prop_assign_other [OF this] Some assms(5) filtered show ?thesis
      by (simp add: outHeaders_def Let_def get_prop_set_prop)
  qed
qed

lemma handler_dispatch_headers:
  assumes "upstreamReq (handler rt cfg cf req) = Some opts"
  shows "\<exists>u. request_URL rt req = Some u \<and> up_headers opts = forward_headers req u"
proof (cases "proxyable rt cfg req")
  case True
  from handler_proxyable [OF True, of cf] assms show ?thesis
    by (auto simp: respond_fields dispatch_fields request_options_def Let_def split: if_splits)
next
  case False
  from handler_not_proxyable [OF False, of cf] assms show ?thesis by simp
qed

lemma response_step_headers:
  assumes "upstreamReq s \<noteq> None" "\<not> threw s" "\<not> upstream_destroyed s"
    "\<not> upstream_responded s" "\<not> headersSent s"
  shows "res_headers (on_event cfg (UpstreamResponse st up) s) = outHeaders (cors_decision s) up"
  using assms by (auto simp: on_event_def writeHead_def send_def)

section \<open>The headers relayed in both directions\<close>

text \<open>
  C5 (amended). The eight hop-by-hop names (Connection, Keep-Alive, Proxy-Authenticate,
  Proxy-Authorization, TE, Trailer, Transfer-Encoding, Upgrade) are recognised whatever
  their case. Towards the upstream, no header of the set sent has an empty name, the name
  Host or a hop-by-hop name, in any case; every other header of the request is in it
  unchanged (but one spelled exactly as one of the three metadata headers, which is
  overwritten), and it carries X-Forwarded-Proto, X-Forwarded-Host and X-Forwarded-For.
  Towards the client, no hop-by-hop header of the upstream response is relayed (one can only
  come from the CORS decision), and every other header of the response with a name is relayed
  unchanged unless the CORS decision or X-Content-Type-Options overwrites it; Host is not a
  hop-by-hop name, and a Host header of the upstream response is relayed like any other.
\<close>

theorem relayed_headers_sanitized:
  "(isHopByHopHeader k \<longleftrightarrow>
      toLowerCase k \<in> {''connection'', ''keep-alive'', ''proxy-authenticate'', ''proxy-authorization'',
                         ''te'', ''trailer'', ''transfer-encoding'', ''upgrade''}) \<and>
   (\<forall>n\<in>keys (forward_headers req u).
      n \<noteq> [] \<and> toLowerCase n \<noteq> ''host'' \<and> \<not> isHopByHopHeader n) \<and>
   (distinct (map fst (req_headers req)) \<and> k \<noteq> [] \<and> toLowerCase k \<noteq> ''host'' \<and>
    \<not> isHopByHopHeader k \<and>
    k \<notin> {''X-Forwarded-Proto'', ''X-Forwarded-Host'', ''X-Forwarded-For''} \<longrightarrow>
      get_prop (forward_headers req u) k = get_prop (req_headers req) k) \<and>
   get_prop (forward_headers req u) ''X-Forwarded-Proto'' = Some (remove_first CHR '':'' (protocol u)) \<and>
   get_prop (forward_headers req u) ''X-Forwarded-Host'' =
     Some (or_empty (get_prop (req_headers req) ''host'')) \<and>
   get_prop (forward_headers req u) ''X-Forwarded-For'' = Some (or_empty (remoteAddress req)) \<and>
   (\<forall>opts. upstreamReq (handler rt cfg cf req) = Some opts \<longrightarrow>
      (\<exists>v. request_URL rt req = Some v \<and> up_headers opts = forward_headers req v)) \<and>
   (\<forall>n\<in>keys (outHeaders cors up).
      isHopByHopHeader n \<longrightarrow> n \<in> keys (case cors of None \<Rightarrow> [] | Some c \<Rightarrow> c)) \<and>
   (distinct (map fst up) \<and> k \<noteq> [] \<and> \<not> isHopByHopHeader k \<and>
    k \<notin> keys (case cors of None \<Rightarrow> [] | Some c \<Rightarrow> c) \<and> k \<noteq> ''X-Content-Type-Options'' \<longrightarrow>
      get_prop (outHeaders cors up) k = get_prop up k) \<and>
   \<not> isHopByHopHeader ''host'' \<and>
   (upstreamReq s \<noteq> None \<and> \<not> threw s \<and> \<not> upstream_destroyed s \<and>
    \<not> upstream_responded s \<and> \<not> headersSent s \<longrightarrow>
      res_headers (on_event cfg (UpstreamResponse st up) s) = outHeaders (cors_decision s) up)"
proof (intro conjI)
  show "isHopByHopHeader k \<longleftrightarrow>
      toLowerCase k \<in> {''connection'', ''keep-alive'', ''proxy-authenticate'', ''proxy-authorization'',
                         ''te'', ''trailer'', ''transfer-encoding'', ''upgrade''}"
    by (rule isHopByHopHeader_iff)
  show "\<forall>n\<in>keys (forward_headers req u).
      n \<noteq> [] \<and> toLowerCase n \<noteq> ''host'' \<and> \<not> isHopByHopHeader n"
    using forward_headers_clean by blast
  show "distinct (map fst (req_headers req)) \<and> k \<noteq> [] \<and> toLowerCase k \<noteq> ''host'' \<and>
    \<not> isHopByHopHeader k \<and>
    k \<notin> {''X-Forwarded-Proto'', ''X-Forwarded-Host'', ''X-Forwarded-For''} \<longrightarrow>
      get_prop (forward_headers req u) k = get_prop (req_headers req) k"
    using forward_headers_pass [of req k u] by blast
  show "get_prop (forward_headers req u) ''X-Forwarded-Proto'' = Some (remove_first CHR '':'' (protocol u))"
    by (rule forward_headers_metadata)
  show "get_prop (forward_headers req u) ''X-Forwarded-Host'' =
     Some (or_empty (get_prop (req_headers req) ''host''))"
    by (rule forward_headers_metadata)
  show "get_prop (forward_headers req u) ''X-Forwarded-For'' = Some (or_empty (remoteAddress req))"
    by (rule forward_headers_metadata)
  show "\<forall>opts. upstreamReq (handler rt cfg cf req) = Some opts \<longrightarrow>
      (\<exists>v. request_URL rt req = Some v \<and> up_headers opts = forward_headers req v)"
    using handler_dispatch_headers [of rt cfg cf req] by blast
  show "\<forall>n\<in>keys (outHeaders cors up).
      isHopByHopHeader n \<longrightarrow> n \<in> keys (case cors of None \<Rightarrow> [] | Some c \<Rightarrow> c)"
    using outHeaders_clean [of _ cors up] by blast
  show "distinct (map fst up) \<and> k \<noteq> [] \<and> \<not> isHopByHopHeader k \<and>
    k \<notin> keys (case cors of None \<Rightarrow> [] | Some c \<Rightarrow> c) \<and> k \<noteq> ''X-Content-Type-Options'' \<longrightarrow>
      get_prop (outHeaders cors up) k = get_prop up k"
    using outHeaders_pass [of up k cors] by blast
  show "\<not> isHopByHopHeader ''host''"
    by (simp add: isHopByHopHeader_iff lower_eval)
  show "upstreamReq s \<noteq> None \<and> \<not> threw s \<and> \<not> upstream_destroyed s \<and>
    \<not> upstream_responded s \<and> \<not> headersSent s \<longrightarrow>
      res_headers (on_event cfg (UpstreamResponse st up) s) = outHeaders (cors_decision s) up"
    using response_step_headers [of s cfg st up] by blast
qed

theorem relayed_headers_sanitized_witness:
  "upstreamReq (handler sample_runtime open_config sample_cors
      (post_mcp [(''host'', ''localhost:8787''), (''connection'', ''keep-alive''),
                 (''Transfer-Encoding'', ''chunked''), (''content-type'', ''application/json'')])) =
     Some \<lparr> up_protocol = ''http:'', up_hostname = ''127.0.0.1'', up_port = Some ''8788'',
            up_method = ''POST'', up_path = ''/mcp'',
            up_headers = [(''content-type'', ''application/json''), (''X-Forwarded-Proto'', ''http''),
                          (''X-Forwarded-Host'', ''localhost:8787''), (''X-Forwarded-For'', ''127.0.0.1'')],
            up_timeout = 30000 \<rparr> \<and>
   isHopByHopHeader ''Transfer-Encoding'' \<and>
   outHeaders (sample_cors ''https://chatgpt.com'' {''https://chatgpt.com''})
      [(''connection'', ''close''), (''content-type'', ''application/json''), (''keep-alive'', ''timeout=5'')] =
     [(''content-type'', ''application/json''), (''Access-Control-Allow-Origin'', ''https://chatgpt.com''),
      (''Vary'', ''Origin''), (''X-Content-Type-Options'', ''nosniff'')]"
  using relayed_headers_sanitized
    [where k = "''Transfer-Encoding''" and rt = sample_runtime and cfg = open_config and cf = sample_cors
       and req = "post_mcp [(''host'', ''localhost:8787''), (''connection'', ''keep-alive''),
                 (''Transfer-Encoding'', ''chunked''), (''content-type'', ''application/json'')]"
       and u = proxy_url
       and cors = "sample_cors ''https://chatgpt.com'' {''https://chatgpt.com''}"
       and up = "[(''connection'', ''close''), (''content-type'', ''application/json''),
                  (''keep-alive'', ''timeout=5'')]"]
  by (simp add: handler_eval sample_eval session_eval lower_eval outHeaders_def relay_entry_def
      assign_def)

text \<open>
  Host is not dropped towards the client: a Host header of the upstream response, in any
  case, is in the headers relayed, while Connection is not.
\<close>

theorem response_host_header_relayed:
  "toLowerCase ''Host'' = ''host'' \<and>
   outHeaders None [(''Host'', ''internal.example''), (''Connection'', ''close'')] =
     [(''Host'', ''internal.example''), (''X-Content-Type-Options'', ''nosniff'')] \<and>
   res_headers (serve sample_runtime open_config sample_cors (post_mcp [])
      [UpstreamResponse (Some 200) [(''host'', ''internal.example''), (''connection'', ''close'')]]) =
     [(''host'', ''internal.example''), (''X-Content-Type-Options'', ''nosniff'')]"
  by (simp add: handler_eval sample_eval session_eval lower_eval event_eval)

section \<open>The content-sniffing header is an invariant of the session\<close>

lemma nosniff_fixed: "nosniff plain_headers" "nosniff json_headers"
  by (simp_all add: nosniff_def plain_headers_def json_headers_def get_prop_def)

lemma nosniff_set_prop: "nosniff (set_prop ''X-Content-Type-Options'' ''nosniff'' hs)"
  by (simp add: nosniff_def get_prop_set_prop)

lemma nosniff_outHeaders: "nosniff (outHeaders cors up)"
  by (simp add: outHeaders_def Let_def nosniff_set_prop)

lemma sniff_safe_fresh: "sniff_safe fresh"
  by (simp add: sniff_safe_def fresh_def)

lemma sniff_safe_send:
  "sniff_safe s \<Longrightarrow> \<forall>c hs. WHead c hs \<in> set ws \<longrightarrow> nosniff hs \<Longrightarrow> sniff_safe (send ws s)"
  by (auto simp: sniff_safe_def send_def)

lemma sniff_safe_writeHead: "sniff_safe s \<Longrightarrow> nosniff hs \<Longrightarrow> sniff_safe (writeHead c hs s)"
  by (auto simp: sniff_safe_def writeHead_def send_def)

lemma sniff_safe_res_end: "sniff_safe s \<Longrightarrow> sniff_safe (res_end b s)"
  by (auto simp: sniff_safe_def res_end_def send_def Let_def)

lemma sniff_safe_res_destroy: "sniff_safe s \<Longrightarrow> sniff_safe (res_destroy s)"
  by (auto simp: sniff_safe_def res_destroy_def send_def)

lemma sniff_safe_respond: "nosniff hs \<Longrightarrow> sniff_safe (respond c hs b fresh)"
  by (simp add: respond_def sniff_safe_res_end sniff_safe_writeHead sniff_safe_fresh)

lemma sniff_safe_dispatch: "sniff_safe (dispatch cfg req u cors)"
  by (simp add: sniff_safe_def dispatch_def fresh_def)

lemma sniff_safe_frame:
  "sniff_safe (s\<lparr>upstream_destroyed := a\<rparr>) = sniff_safe s"
  "sniff_safe (s\<lparr>upstream_responded := a\<rparr>) = sniff_safe s"
  "sniff_safe (s\<lparr>upstream_ended := a\<rparr>) = sniff_safe s"
  "sniff_safe (s\<lparr>upstream_written := w\<rparr>) = sniff_safe s"
  "sniff_safe (s\<lparr>seen := n\<rparr>) = sniff_safe s"
  "sniff_safe (s\<lparr>limiter_errored := a\<rparr>) = sniff_safe s"
  "sniff_safe (s\<lparr>client_closed := a\<rparr>) = sniff_safe s"
  "sniff_safe (s\<lparr>threw := a\<rparr>) = sniff_safe s"
  "sniff_safe (s\<lparr>res_body := bs\<rparr>) = sniff_safe s"
  by (simp_all add: sniff_safe_def)

lemma sniff_safe_on_upstream_error: "sniff_safe s \<Longrightarrow> sniff_safe (on_upstream_error e s)"
  by (simp add: on_upstream_error_def Let_def sniff_safe_res_destroy sniff_safe_res_end
      sniff_safe_writeHead nosniff_fixed)

lemma sniff_safe_upstreamReq_destroy: "sniff_safe s \<Longrightarrow> sniff_safe (upstreamReq_destroy e s)"
  by (cases e) (simp_all add: upstreamReq_destroy_def sniff_safe_on_upstream_error sniff_safe_frame)

lemma sniff_safe_handler: "sniff_safe (handler rt cfg cf req)"
proof (cases "proxyable rt cfg req")
  case True
  from handler_proxyable [OF True, of cf] show ?thesis
    by (auto simp: sniff_safe_respond sniff_safe_dispatch nosniff_fixed)
next
  case False
  show ?thesis
  proof (cases "falsy (req_url req) \<or> falsy (req_method req)")
    case True
    then show ?thesis by (simp add: handler_def sniff_safe_respond nosniff_fixed)
  next
    case present: False
    show ?thesis
    proof (cases "request_URL rt req")
      case None
      with present show ?thesis
        by (simp add: handler_def sniff_safe_frame sniff_safe_fresh)
    next
      case (Some u)
      with present False
      have "(or_empty (req_method req) = ''GET'' \<and> normalizePath (Some (pathname u)) = ''/health'') \<or>
          normalizePath (Some (pathname u)) \<noteq> mcpPath cfg \<or>
          or_empty (req_method req) \<notin> MCP_METHODS"
        by (auto simp: proxyable_def)
      with present Some show ?thesis
        by (auto simp: handler_def Let_def sniff_safe_respond nosniff_fixed nosniff_set_prop
            split: option.splits)
    qed
  qed
qed

lemma sniff_safe_on_event: "sniff_safe s \<Longrightarrow> sniff_safe (on_event cfg ev s)"
proof (cases "upstreamReq s = None \<or> threw s")
  case True
  then show ?thesis if "sniff_safe s" using that by (simp add: on_event_idle)
next
  case False
  assume safe: "sniff_safe s"
  show ?thesis
  proof (cases ev)
    case (ReqData c)
    with False safe show ?thesis
      by (auto simp: on_event_def transform_def Let_def sniff_safe_upstreamReq_destroy sniff_safe_frame)
  next
    case ReqEnd
    with False safe show ?thesis
      by (auto simp: on_event_def sniff_safe_frame)
  next
    case (UpstreamResponse st hs)
    with False safe show ?thesis
      by (auto simp: on_event_def sniff_safe_frame sniff_safe_writeHead nosniff_outHeaders)
  next
    case (UpstreamData d)
    with False safe show ?thesis
      by (auto simp: on_event_def sniff_safe_frame sniff_safe_send)
  next
    case UpstreamEnd
    with False safe show ?thesis
      by (auto simp: on_event_def sniff_safe_res_end)
  next
    case UpstreamTimeout
    with False safe show ?thesis
      by (auto simp: on_event_def sniff_safe_upstreamReq_destroy)
  next
    case (UpstreamError e)
    with False safe show ?thesis
      by (auto simp: on_event_def sniff_safe_on_upstream_error sniff_safe_frame)
  next
    case ClientClose
    with False safe show ?thesis
      by (auto simp: on_event_def sniff_safe_upstreamReq_destroy sniff_safe_frame)
  qed
qed

lemma sniff_safe_run: "sniff_safe s \<Longrightarrow> sniff_safe (run cfg evs s)"
  unfolding run_def by (induction evs arbitrary: s) (simp_all add: sniff_safe_on_event)

section \<open>Every response carries the content-sniffing header\<close>

text \<open>
  C8. Whatever the request, the evaluator and the events that follow, the head written to
  the response, once there is one, carries X-Content-Type-Options: nosniff, and so does
  every head that went out to the client. The header sets the proxy answers with are the
  plain-text one (400, 401, 403, 404, 413, 502), the health one, the CORS headers of a
  preflight with the header set on them, and the headers of a relayed response: each of them
  carries it.
\<close>

theorem every_response_has_nosniff:
  "(headersSent (serve rt cfg cf req evs) \<longrightarrow>
      get_prop (res_headers (serve rt cfg cf req evs)) ''X-Content-Type-Options'' = Some ''nosniff'') \<and>
   (\<forall>c hs. WHead c hs \<in> set (delivered (serve rt cfg cf req evs)) \<longrightarrow>
      get_prop hs ''X-Content-Type-Options'' = Some ''nosniff'') \<and>
   nosniff plain_headers \<and> nosniff json_headers \<and>
   nosniff (set_prop ''X-Content-Type-Options'' ''nosniff'' c) \<and>
   nosniff (outHeaders cors up)"
proof -
  have "sniff_safe (serve rt cfg cf req evs)"
    unfolding serve_def by (rule sniff_safe_run) (rule sniff_safe_handler)
  then show ?thesis
    by (simp add: sniff_safe_def nosniff_def [symmetric] nosniff_fixed nosniff_set_prop
        nosniff_outHeaders)
qed

theorem every_response_has_nosniff_witness:
  "headersSent (serve sample_runtime open_config sample_cors
      (post_mcp [(''origin'', ''https://chatgpt.com'')])
      [ReqData ''{}'', ReqEnd, UpstreamResponse (Some 200) [(''content-type'', ''application/json'')],
       UpstreamData ''ok'', UpstreamEnd]) \<and>
   get_prop (res_headers (serve sample_runtime open_config sample_cors
      (post_mcp [(''origin'', ''https://chatgpt.com'')])
      [ReqData ''{}'', ReqEnd, UpstreamResponse (Some 200) [(''content-type'', ''application/json'')],
       UpstreamData ''ok'', UpstreamEnd])) ''X-Content-Type-Options'' = Some ''nosniff'' \<and>
   delivered (serve sample_runtime open_config sample_cors
      (post_mcp [(''origin'', ''https://chatgpt.com'')])
      [ReqData ''{}'', ReqEnd, UpstreamResponse (Some 200) [(''content-type'', ''application/json'')],
       UpstreamData ''ok'', UpstreamEnd]) =
     [WHead 200 [(''content-type'', ''application/json''),
                 (''Access-Control-Allow-Origin'', ''https://chatgpt.com''), (''Vary'', ''Origin''),
                 (''X-Content-Type-Options'', ''nosniff'')],
      WBody ''ok'', WEnd]"
  using every_response_has_nosniff
    [of sample_runtime open_config sample_cors "post_mcp [(''origin'', ''https://chatgpt.com'')]"
      "[ReqData ''{}'', ReqEnd, UpstreamResponse (Some 200) [(''content-type'', ''application/json'')],
        UpstreamData ''ok'', UpstreamEnd]"]
  by (simp add: handler_eval sample_eval session_eval lower_eval event_eval)

section \<open>The error listener of the upstream request\<close>

lemma on_upstream_error_frame:
  "upstream_destroyed (on_upstream_error e s) = upstream_destroyed s"
  "upstream_written (on_upstream_error e s) = upstream_written s"
  "upstreamReq (on_upstream_error e s) = upstreamReq s"
  "client_closed (on_upstream_error e s) = client_closed s"
  "threw (on_upstream_error e s) = threw s"
  by (simp_all add: on_upstream_error_def session_eval Let_def)

lemma on_upstream_error_delivered:
  "delivered (on_upstream_error e s) =
     delivered s @
     (if client_closed s \<or> res_destroyed s then []
      else if headersSent s then [WReset]
      else if code e = Some ''BODY_TOO_LARGE''
      then [WHead 413 plain_headers, WBody ''Request too large'', WEnd]
      else [WHead 502 plain_headers, WBody ''Bad gateway'', WEnd])"
  by (simp add: on_upstream_error_def session_eval Let_def)

lemma failure_step:
  assumes "upstreamReq s \<noteq> None" "\<not> threw s"
    and "ev = UpstreamTimeout \<and> \<not> upstream_destroyed s \<and> e = JsError ''Upstream timeout'' None \<or>
         ev = UpstreamError e"
  shows "on_event cfg ev s = on_upstream_error e (s\<lparr>upstream_destroyed := True\<rparr>)"
  using assms by (auto simp: on_event_def upstreamReq_destroy_def)

section \<open>Upstream timeouts and errors\<close>

text \<open>
  C6. On a forwarded request, take a timeout of the live upstream request (the listener
  destroys the request with the error Upstream timeout, which the request emits) or an
  error event of the upstream request. The upstream request is destroyed. If no head was
  sent to the client, the client is answered 502 Bad gateway with the plain-text headers,
  or 413 Request too large when the error has the code \<open>BODY_TOO_LARGE\<close>. If a head was
  sent, the response is destroyed and its status, headers and body stay as they were. On
  the connection, the 502 or 413 answer goes out exactly when no head was sent before (and
  the connection is open); otherwise at most a reset.
\<close>

theorem upstream_failure_answer:
  "upstreamReq s \<noteq> None \<and> \<not> threw s \<and>
   (ev = UpstreamTimeout \<and> \<not> upstream_destroyed s \<and> e = JsError ''Upstream timeout'' None \<or>
    ev = UpstreamError e) \<longrightarrow>
     upstream_destroyed (on_event cfg ev s) \<and>
     (\<not> headersSent s \<longrightarrow>
        statusCode (on_event cfg ev s) = Some (if code e = Some ''BODY_TOO_LARGE'' then 413 else 502) \<and>
        res_headers (on_event cfg ev s) = plain_headers \<and>
        res_body (on_event cfg ev s) =
          res_body s @ [if code e = Some ''BODY_TOO_LARGE'' then ''Request too large'' else ''Bad gateway''] \<and>
        res_ended (on_event cfg ev s) \<and>
        res_destroyed (on_event cfg ev s) = res_destroyed s) \<and>
     (headersSent s \<longrightarrow>
        res_destroyed (on_event cfg ev s) \<and>
        statusCode (on_event cfg ev s) = statusCode s \<and>
        res_headers (on_event cfg ev s) = res_headers s \<and>
        res_body (on_event cfg ev s) = res_body s) \<and>
     delivered (on_event cfg ev s) =
       delivered s @
       (if client_closed s \<or> res_destroyed s then []
        else if headersSent s then [WReset]
        else if code e = Some ''BODY_TOO_LARGE''
        then [WHead 413 plain_headers, WBody ''Request too large'', WEnd]
        else [WHead 502 plain_headers, WBody ''Bad gateway'', WEnd]) \<and>
     code (JsError ''Upstream timeout'' None) \<noteq> Some ''BODY_TOO_LARGE''"
proof
  assume a: "upstreamReq s \<noteq> None \<and> \<not> threw s \<and>
   (ev = UpstreamTimeout \<and> \<not> upstream_destroyed s \<and> e = JsError ''Upstream timeout'' None \<or>
    ev = UpstreamError e)"
  let ?s = "s\<lparr>upstream_destroyed := True\<rparr>"
  from a have step: "on_event cfg ev s = on_upstream_error e ?s"
    by (intro failure_step) simp_all
  have unsent: "statusCode (on_upstream_error e ?s) =
        Some (if code e = Some ''BODY_TOO_LARGE'' then 413 else 502) \<and>
      res_headers (on_upstream_error e ?s) = plain_headers \<and>
      res_body (on_upstream_error e ?s) =
        res_body s @ [if code e = Some ''BODY_TOO_LARGE'' then ''Request too large'' else ''Bad gateway''] \<and>
      res_ended (on_upstream_error e ?s) \<and>
      res_destroyed (on_upstream_error e ?s) = res_destroyed s"
    if "\<not> headersSent s"
    using that on_upstream_error_unsent [of ?s e] by simp
  have sent: "res_destroyed (on_upstream_error e ?s) \<and>
      statusCode (on_upstream_error e ?s) = statusCode s \<and>
      res_headers (on_upstream_error e ?s) = res_headers s \<and>
      res_body (on_upstream_error e ?s) = res_body s"
    if "headersSent s"
    using that on_upstream_error_sent [of ?s e] by simp
  have out: "delivered (on_upstream_error e ?s) =
       delivered s @
       (if client_closed s \<or> res_destroyed s then []
        else if headersSent s then [WReset]
        else if code e = Some ''BODY_TOO_LARGE''
        then [WHead 413 plain_headers, WBody ''Request too large'', WEnd]
        else [WHead 502 plain_headers, WBody ''Bad gateway'', WEnd])"
    by (simp add: on_upstream_error_delivered)
  have gone: "upstream_destroyed (on_upstream_error e ?s)"
    by (simp add: on_upstream_error_frame)
  from unsent sent out gone
  show "upstream_destroyed (on_event cfg ev s) \<and>
     (\<not> headersSent s \<longrightarrow>
        statusCode (on_event cfg ev s) = Some (if code e = Some ''BODY_TOO_LARGE'' then 413 else 502) \<and>
        res_headers (on_event cfg ev s) = plain_headers \<and>
        res_body (on_event cfg ev s) =
          res_body s @ [if code e = Some ''BODY_TOO_LARGE'' then ''Request too large'' else ''Bad gateway''] \<and>
        res_ended (on_event cfg ev s) \<and>
        res_destroyed (on_event cfg ev s) = res_destroyed s) \<and>
     (headersSent s \<longrightarrow>
        res_destroyed (on_event cfg ev s) \<and>
        statusCode (on_event cfg ev s) = statusCode s \<and>
        res_headers (on_event cfg ev s) = res_headers s \<and>
        res_body (on_event cfg ev s) = res_body s) \<and>
     delivered (on_event cfg ev s) =
       delivered s @
       (if client_closed s \<or> res_destroyed s then []
        else if headersSent s then [WReset]
        else if code e = Some ''BODY_TOO_LARGE''
        then [WHead 413 plain_headers, WBody ''Request too large'', WEnd]
        else [WHead 502 plain_headers, WBody ''Bad gateway'', WEnd]) \<and>
     code (JsError ''Upstream timeout'' None) \<noteq> Some ''BODY_TOO_LARGE''"
    unfolding step by simp
qed

theorem upstream_failure_answer_witness:
  "upstreamReq (handler sample_runtime open_config sample_cors (post_mcp [])) =
     Some (request_options open_config (post_mcp []) (local_url ''/mcp'')) \<and>
   statusCode (on_event open_config UpstreamTimeout
      (handler sample_runtime open_config sample_cors (post_mcp []))) = Some 502 \<and>
   delivered (on_event open_config UpstreamTimeout
      (handler sample_runtime open_config sample_cors (post_mcp []))) =
     [WHead 502 plain_headers, WBody ''Bad gateway'', WEnd] \<and>
   upstream_destroyed (on_event open_config UpstreamTimeout
      (handler sample_runtime open_config sample_cors (post_mcp [])))"
  using upstream_failure_answer
    [of "handler sample_runtime open_config sample_cors (post_mcp [])" UpstreamTimeout
      "JsError ''Upstream timeout'' None" open_config]
  by (simp add: handler_eval sample_eval session_eval lower_eval)

section \<open>After the client connection has closed\<close>

lemma after_close_step:
  assumes "client_closed s" "upstream_destroyed s"
  shows "client_closed (on_event cfg ev s) \<and> upstream_destroyed (on_event cfg ev s) \<and>
    delivered (on_event cfg ev s) = delivered s \<and>
    upstream_written (on_event cfg ev s) = upstream_written s"
proof (cases "upstreamReq s = None \<or> threw s")
  case True
  with assms show ?thesis by (simp add: on_event_idle)
next
  case False
  show ?thesis
  proof (cases ev)
    case (ReqData c)
    with False assms show ?thesis
      by (auto simp: on_event_def transform_def Let_def upstreamReq_destroy_def)
  next
    case ReqEnd
    with False assms show ?thesis by (auto simp: on_event_def)
  next
    case (UpstreamResponse st hs)
    with False assms show ?thesis by (auto simp: on_event_def)
  next
    case (UpstreamData d)
    with False assms show ?thesis by (auto simp: on_event_def)
  next
    case UpstreamEnd
    with False assms show ?thesis by (auto simp: on_event_def)
  next
    case UpstreamTimeout
    with False assms show ?thesis by (auto simp: on_event_def upstreamReq_destroy_def)
  next
    case (UpstreamError e)
    with False assms show ?thesis
      by (auto simp: on_event_def on_upstream_error_frame on_upstream_error_delivered)
  next
    case ClientClose
    with False assms show ?thesis by (auto simp: on_event_def upstreamReq_destroy_def)
  qed
qed

lemma after_close_run:
  assumes "client_closed s" "upstream_destroyed s"
  shows "client_closed (run cfg evs s) \<and> upstream_destroyed (run cfg evs s) \<and>
    delivered (run cfg evs s) = delivered s \<and>
    upstream_written (run cfg evs s) = upstream_written s"
  using assms
proof (induction evs arbitrary: s)
  case Nil
  then show ?case by (simp add: run_def)
next
  case (Cons ev evs)
  from after_close_step [OF Cons.prems, of cfg ev]
  have next_state: "client_closed (on_event cfg ev s)" "upstream_destroyed (on_event cfg ev s)"
    and same: "delivered (on_event cfg ev s) = delivered s"
      "upstream_written (on_event cfg ev s) = upstream_written s"
    by simp_all
  have "run cfg (ev # evs) s = run cfg evs (on_event cfg ev s)"
    by (simp add: run_def)
  with Cons.IH [OF next_state] same show ?case by simp
qed

lemma close_step:
  assumes "upstreamReq s \<noteq> None" "\<not> threw s"
  shows "client_closed (on_event cfg ClientClose s) \<and> upstream_destroyed (on_event cfg ClientClose s) \<and>
    delivered (on_event cfg ClientClose s) = delivered s \<and>
    upstream_written (on_event cfg ClientClose s) = upstream_written s \<and>
    statusCode (on_event cfg ClientClose s) = statusCode s"
  using assms by (auto simp: on_event_def upstreamReq_destroy_def)

section \<open>The close of the client connection\<close>

text \<open>
  C9. On a forwarded request, at the close event of the client response the upstream
  request is destroyed in that same step, whatever the state of the exchange, and nothing
  is sent to the client by the step. After it, whatever events follow (chunks of the
  request, a response, data, a timeout or an error of the upstream), the upstream request
  stays destroyed, nothing more is written to it, and nothing more goes out to the client.
\<close>

theorem client_close_tears_down_upstream:
  "upstreamReq s \<noteq> None \<and> \<not> threw s \<longrightarrow>
     upstream_destroyed (on_event cfg ClientClose s) \<and>
     client_closed (on_event cfg ClientClose s) \<and>
     delivered (on_event cfg ClientClose s) = delivered s \<and>
     (\<forall>evs. upstream_destroyed (run cfg evs (on_event cfg ClientClose s)) \<and>
            upstream_written (run cfg evs (on_event cfg ClientClose s)) = upstream_written s \<and>
            delivered (run cfg evs (on_event cfg ClientClose s)) = delivered s)"
proof
  assume a: "upstreamReq s \<noteq> None \<and> \<not> threw s"
  then have live: "upstreamReq s \<noteq> None" "\<not> threw s"
    by simp_all
  from close_step [OF live, of cfg]
  have closed: "client_closed (on_event cfg ClientClose s)"
    and gone: "upstream_destroyed (on_event cfg ClientClose s)"
    and same: "delivered (on_event cfg ClientClose s) = delivered s"
      "upstream_written (on_event cfg ClientClose s) = upstream_written s"
    by simp_all
  have later: "upstream_destroyed (run cfg evs (on_event cfg ClientClose s)) \<and>
      upstream_written (run cfg evs (on_event cfg ClientClose s)) = upstream_written s \<and>
      delivered (run cfg evs (on_event cfg ClientClose s)) = delivered s" for evs
    using after_close_run [OF closed gone, of cfg evs] same by simp
  from closed gone same later
  show "upstream_destroyed (on_event cfg ClientClose s) \<and>
     client_closed (on_event cfg ClientClose s) \<and>
     delivered (on_event cfg ClientClose s) = delivered s \<and>
     (\<forall>evs. upstream_destroyed (run cfg evs (on_event cfg ClientClose s)) \<and>
            upstream_written (run cfg evs (on_event cfg ClientClose s)) = upstream_written s \<and>
            delivered (run cfg evs (on_event cfg ClientClose s)) = delivered s)"
    by simp
qed

theorem client_close_tears_down_upstream_witness:
  "upstreamReq (run open_config [ReqData ''01234'']
      (handler sample_runtime open_config sample_cors (post_mcp []))) =
     Some (request_options open_config (post_mcp []) (local_url ''/mcp'')) \<and>
   upstream_destroyed (on_event open_config ClientClose (run open_config [ReqData ''01234'']
      (handler sample_runtime open_config sample_cors (post_mcp [])))) \<and>
   upstream_written (run open_config
      [ReqData ''56'', UpstreamError (JsError ''socket hang up'' (Some ''ECONNRESET'')),
       UpstreamResponse (Some 200) []]
      (on_event open_config ClientClose (run open_config [ReqData ''01234'']
        (handler sample_runtime open_config sample_cors (post_mcp []))))) = [''01234''] \<and>
   delivered (run open_config
      [ReqData ''56'', UpstreamError (JsError ''socket hang up'' (Some ''ECONNRESET'')),
       UpstreamResponse (Some 200) []]
      (on_event open_config ClientClose (run open_config [ReqData ''01234'']
        (handler sample_runtime open_config sample_cors (post_mcp []))))) = []"
  using client_close_tears_down_upstream
    [of "run open_config [ReqData ''01234'']
          (handler sample_runtime open_config sample_cors (post_mcp []))" open_config]
  by (simp add: handler_eval sample_eval session_eval lower_eval event_eval)

end
